theory Spec2Isabelle
  imports Main
begin

section \<open>Python values, strings and console input\<close>

text \<open>
  The program is Python. Strings are modelled as lists of characters with code points
  below 256; the helpers below follow the behaviour of \<^verbatim>\<open>str.strip\<close>,
  \<^verbatim>\<open>str.lower\<close> and \<^verbatim>\<open>int(str)\<close> of CPython 3.11 on that range. A \<open>PyObject\<close>
  is an instance of a class, given by the name of the class and the attributes of the
  instance.
\<close>

datatype pyobj =
    PyNone
  | PyBool bool
  | PyInt int
  | PyStr string
  | PyList "pyobj list"
  | PyDict "(string \<times> pyobj) list"
  | PyObject string "(string \<times> pyobj) list"

datatype pyexc =
    EOFError
  | ValueError string
  | TypeError string
  | KeyError string
  | IndexError string
  | AttributeError string
  | Exception string


text \<open>The characters \<^verbatim>\<open>str.isspace\<close> accepts, which \<^verbatim>\<open>str.strip\<close> removes.\<close>

definition py_isspace :: "char \<Rightarrow> bool" where
  "py_isspace c = (of_char c \<in> {9, 10, 11, 12, 13, 28, 29, 30, 31, 32, 133, 160 :: nat})"

definition py_strip :: "string \<Rightarrow> string" where
  "py_strip s = rev (dropWhile py_isspace (rev (dropWhile py_isspace s)))"

definition py_lower_char :: "char \<Rightarrow> char" where
  "py_lower_char c =
     (let n = of_char c :: nat
      in if (65 \<le> n \<and> n \<le> 90) \<or> (192 \<le> n \<and> n \<le> 222 \<and> n \<noteq> 215)
         then char_of (n + 32) else c)"

definition py_lower :: "string \<Rightarrow> string" where
  "py_lower s = map py_lower_char s"

definition py_isdigit :: "char \<Rightarrow> bool" where
  "py_isdigit c = (48 \<le> (of_char c :: nat) \<and> (of_char c :: nat) \<le> 57)"

fun no_double_underscore :: "string \<Rightarrow> bool" where
  "no_double_underscore (a # b # cs) =
     ((a \<noteq> CHR ''_'' \<or> b \<noteq> CHR ''_'') \<and> no_double_underscore (b # cs))"
| "no_double_underscore cs = True"

definition py_int_digits :: "string \<Rightarrow> bool" where
  "py_int_digits b =
     (b \<noteq> [] \<and> py_isdigit (hd b) \<and> py_isdigit (last b)
      \<and> list_all (\<lambda>c. py_isdigit c \<or> c = CHR ''_'') b \<and> no_double_underscore b)"

definition py_digits_value :: "string \<Rightarrow> nat" where
  "py_digits_value b = foldl (\<lambda>acc c. 10 * acc + (of_char c - 48)) 0 (filter py_isdigit b)"

text \<open>
  \<^verbatim>\<open>int(s)\<close> for a string. The whitespace \<^verbatim>\<open>int\<close> skips around the number is
  narrower than that of \<^verbatim>\<open>str.strip\<close>: the six ASCII characters of C's \<^verbatim>\<open>isspace\<close>,
  and the two other whitespace characters below 256, which \<^verbatim>\<open>int\<close> first replaces by a
  space; the separators U+001C to U+001F are not skipped. One sign is allowed, then
  decimal digits, optionally grouped by single underscores, and at most
  \<open>max_str_digits\<close> digits, the interpreter's default limit for the conversion. \<open>None\<close>
  stands for the \<^verbatim>\<open>ValueError\<close> that \<^verbatim>\<open>int\<close> raises on anything else.
\<close>

definition py_int_space :: "char \<Rightarrow> bool" where
  "py_int_space c = (of_char c \<in> {9, 10, 11, 12, 13, 32, 133, 160 :: nat})"

definition py_int_strip :: "string \<Rightarrow> string" where
  "py_int_strip s = rev (dropWhile py_int_space (rev (dropWhile py_int_space s)))"

definition max_str_digits :: nat where
  "max_str_digits = 4300"

definition py_int :: "string \<Rightarrow> int option" where
  "py_int s =
     (let t = py_int_strip s;
          signed = (t \<noteq> [] \<and> (hd t = CHR ''-'' \<or> hd t = CHR ''+''));
          b = (if signed then tl t else t)
      in if py_int_digits b \<and> length (filter py_isdigit b) \<le> max_str_digits
         then Some (if signed \<and> hd t = CHR ''-'' then - int (py_digits_value b)
                    else int (py_digits_value b))
         else None)"

text \<open>
  \<^verbatim>\<open>json.dumps(v, indent=2)\<close> as far as the program depends on it: the text is only
  printed, so what matters is whether the call raises. It raises \<^verbatim>\<open>TypeError\<close> at the
  first value, in the order of the encoding, that is an instance of a class, and names
  the class; the keys of a \<open>PyDict\<close> are strings. \<open>no_attribute\<close> is the
  \<^verbatim>\<open>AttributeError\<close> of reading an attribute that an instance of the class does not
  have.
\<close>

fun first_some :: "'a option list \<Rightarrow> 'a option" where
  "first_some [] = None"
| "first_some (None # xs) = first_some xs"
| "first_some (Some x # xs) = Some x"

fun unserialisable :: "pyobj \<Rightarrow> string option" where
  "unserialisable (PyList xs) = first_some (map unserialisable xs)"
| "unserialisable (PyDict kv) = first_some (map (\<lambda>item. unserialisable (snd item)) kv)"
| "unserialisable (PyObject cls attrs) = Some cls"
| "unserialisable v = None"

definition not_serialisable :: "string \<Rightarrow> pyexc" where
  "not_serialisable cls = TypeError (''Object of type '' @ cls @ '' is not JSON serializable'')"

definition json_dumps :: "pyobj \<Rightarrow> pyexc + unit" where
  "json_dumps v =
     (case unserialisable v of
        None \<Rightarrow> Inr ()
      | Some cls \<Rightarrow> Inl (not_serialisable cls))"


section \<open>Clarifications, plan runs and the executor\<close>

text \<open>
  The classes \<^verbatim>\<open>ActionClarification\<close> \<^verbatim>\<open>...\<close> \<^verbatim>\<open>CustomClarification\<close> are the five kinds
  the source tests with \<^verbatim>\<open>isinstance\<close>; \<open>UnknownClarification\<close> stands for an instance
  of any other subclass of \<^verbatim>\<open>Clarification\<close>. The source asks a custom clarification
  whether it has the attribute \<^verbatim>\<open>custom_data\<close> before it reads it: \<open>None\<close> is a
  clarification without that attribute.
\<close>

datatype clarification =
    ActionClarification (step: nat) (user_guidance: string) (action_url: string)
  | InputClarification (step: nat) (user_guidance: string) (argument_name: string)
  | MultipleChoiceClarification (step: nat) (user_guidance: string) (options: "pyobj list")
  | ValueConfirmationClarification (step: nat) (user_guidance: string) (value_to_confirm: pyobj)
  | CustomClarification (step: nat) (user_guidance: string) (custom_data: "pyobj option")
  | UnknownClarification (step: nat) (user_guidance: string)

text \<open>
  Modelled from the spec: the \<^verbatim>\<open>PlanRunState\<close> enumeration of the executor library, of
  which the source names \<^verbatim>\<open>NEED_CLARIFICATION\<close> and \<^verbatim>\<open>COMPLETE\<close> and the specification
  adds \<^verbatim>\<open>RUNNING\<close> and \<^verbatim>\<open>FAILED\<close>.
\<close>

datatype PlanRunState = RUNNING | COMPLETE | FAILED | NEED_CLARIFICATION

datatype schema =
    FeatureAnalysis
  | NotionPageOutput
  | LinearIssueOutput
  | LinearTaskOutput
  | LinearCommentsListOutput
  | LinearCommentOutput

record plan =
  plan_query :: string
  structured_output_schema :: schema
  plan_steps :: "(string \<times> string) list"

record research_result =
  rr_title :: string
  rr_url :: string
  rr_summary :: string
  rr_relevance_score :: int
  rr_key_insights :: "string list"

record feature_analysis =
  fa_feature_name :: string
  fa_description :: string
  fa_research_sources :: "research_result list"
  fa_market_analysis :: string
  fa_technical_considerations :: "string list"
  fa_implementation_approaches :: "string list"
  fa_risks_and_challenges :: "string list"
  fa_success_metrics :: "string list"
  fa_recommendations :: string

record linear_task_output =
  lt_task_id :: string
  lt_title :: string
  lt_description :: string

text \<open>
  What the research plan hands back as \<^verbatim>\<open>outputs.final_output.value\<close>: an instance of
  \<^verbatim>\<open>FeatureAnalysis\<close>, the declared schema, or a value of another class, given by the
  name of that class, which has none of the attributes of \<^verbatim>\<open>FeatureAnalysis\<close> (a plain
  string, \<^verbatim>\<open>None\<close>). Python does not check the annotation
  \<^verbatim>\<open>-> FeatureAnalysis\<close>, so the drivers receive either.
\<close>

datatype research_value =
    AnalysisValue feature_analysis
  | OtherValue string

text \<open>
  The executor (\<^verbatim>\<open>Portia\<close>) and the plan runs it owns are library code. They are a
  parameter of the model: a plan run is a value of an arbitrary type \<open>'pr\<close> and the
  operations the source calls are functions on it. A call on the executor returns (one
  that raises inside the library, or blocks for ever, is outside the model); nothing
  else is assumed about them.
  The \<open>final\<close> functions are the reads of \<^verbatim>\<open>outputs.final_output.value\<close> that the
  drivers make on a completed run. \<open>final_analysis\<close> is the value itself, and the read
  raises when the run has no final output; the next three also read an attribute of the
  value (\<^verbatim>\<open>page_id\<close>, \<^verbatim>\<open>issue_id\<close>, \<^verbatim>\<open>task_id\<close>), which raises as well when the
  value is not of the declared schema. \<open>final_raw\<close> is the value of the comment
  listing, which the source inspects dynamically.
\<close>

record 'pr portia =
  run_plan :: "plan \<Rightarrow> 'pr"
  resolve_clarification :: "clarification \<Rightarrow> pyobj \<Rightarrow> 'pr \<Rightarrow> 'pr"
  wait_for_ready :: "'pr \<Rightarrow> 'pr"
  resume :: "'pr \<Rightarrow> 'pr"
  state :: "'pr \<Rightarrow> PlanRunState"
  get_outstanding_clarifications :: "'pr \<Rightarrow> clarification list"
  final_analysis :: "'pr \<Rightarrow> pyexc + research_value"
  final_page_id :: "'pr \<Rightarrow> pyexc + string"
  final_issue_id :: "'pr \<Rightarrow> pyexc + string"
  final_task :: "'pr \<Rightarrow> pyexc + linear_task_output"
  final_raw :: "'pr \<Rightarrow> pyobj"

text \<open>
  Effects. The console is a sequence of lines, finite or infinite: \<open>inp n\<close> is the
  \<open>n\<close>-th line typed, or \<open>None\<close> once standard input is at its end, where
  \<^verbatim>\<open>input()\<close> raises \<^verbatim>\<open>EOFError\<close>. The world records how many lines have been read and
  the calls made on the executor, in order. Printed text is not modelled here.
\<close>

datatype call =
    WaitForReady
  | ResolveClarification clarification pyobj
  | Resume
  | RunPlan plan

record world =
  stdin_pos :: nat
  calls :: "call list"

type_synonym console = "nat \<Rightarrow> string option"

definition py_input :: "console \<Rightarrow> world \<Rightarrow> (pyexc + string) \<times> world" where
  "py_input inp w =
     (case inp (stdin_pos w) of
        None \<Rightarrow> (Inl EOFError, w)
      | Some line \<Rightarrow> (Inr line, w\<lparr>stdin_pos := Suc (stdin_pos w)\<rparr>))"

definition logged :: "call \<Rightarrow> world \<Rightarrow> world" where
  "logged c w = w\<lparr>calls := calls w @ [c]\<rparr>"

section \<open>The resolution loop: \<^verbatim>\<open>handle_clarifications\<close>\<close>

text \<open>
  The function is the same, line for line, in the three variants of the program.
  The \<^verbatim>\<open>while True\<close> of the multiple-choice branch may run forever, hence a partial
  function: \<open>None\<close> is a run that does not return.
\<close>

partial_function (option) multiple_choice_loop ::
  "'pr portia \<Rightarrow> console \<Rightarrow> clarification \<Rightarrow> pyobj list \<Rightarrow> 'pr \<Rightarrow> world
     \<Rightarrow> ((pyexc + 'pr) \<times> world) option" where
  "multiple_choice_loop px inp c opts pr w =
     (case py_input inp w of
        (Inl e, w1) \<Rightarrow> Some (Inl e, w1)
      | (Inr line, w1) \<Rightarrow>
          (case py_int line of
             None \<Rightarrow> multiple_choice_loop px inp c opts pr w1
           | Some choice \<Rightarrow>
               if 1 \<le> choice \<and> choice \<le> int (length opts)
               then Some (Inr (resolve_clarification px c (opts ! nat (choice - 1)) pr),
                          logged (ResolveClarification c (opts ! nat (choice - 1))) w1)
               else multiple_choice_loop px inp c opts pr w1))"

definition resolve_with_input ::
  "'pr portia \<Rightarrow> console \<Rightarrow> clarification \<Rightarrow> 'pr \<Rightarrow> world \<Rightarrow> ((pyexc + 'pr) \<times> world) option" where
  "resolve_with_input px inp c pr w =
     (case py_input inp w of
        (Inl e, w1) \<Rightarrow> Some (Inl e, w1)
      | (Inr user_input, w1) \<Rightarrow>
          Some (Inr (resolve_clarification px c (PyStr user_input) pr),
                logged (ResolveClarification c (PyStr user_input)) w1))"

text \<open>
  What the custom branch prints before it reads the answer: the data, through
  \<^verbatim>\<open>json.dumps\<close>, when the clarification has the attribute.
\<close>

definition show_custom_data :: "pyobj option \<Rightarrow> pyexc + unit" where
  "show_custom_data d = (case d of None \<Rightarrow> Inr () | Some data \<Rightarrow> json_dumps data)"

text \<open>The body of the \<^verbatim>\<open>for\<close> loop: the \<^verbatim>\<open>isinstance\<close> chain, in the source's order.\<close>

fun handle_clarification ::
  "'pr portia \<Rightarrow> console \<Rightarrow> clarification \<Rightarrow> 'pr \<Rightarrow> world \<Rightarrow> ((pyexc + 'pr) \<times> world) option" where
  "handle_clarification px inp (ActionClarification s g u) pr w =
     (case py_input inp w of
        (Inl e, w1) \<Rightarrow> Some (Inl e, w1)
      | (Inr ready, w1) \<Rightarrow> Some (Inr (wait_for_ready px pr), logged WaitForReady w1))"
| "handle_clarification px inp (InputClarification s g a) pr w =
     resolve_with_input px inp (InputClarification s g a) pr w"
| "handle_clarification px inp (MultipleChoiceClarification s g opts) pr w =
     (if opts \<noteq> []
      then multiple_choice_loop px inp (MultipleChoiceClarification s g opts) opts pr w
      else resolve_with_input px inp (MultipleChoiceClarification s g opts) pr w)"
| "handle_clarification px inp (ValueConfirmationClarification s g v) pr w =
     (case py_input inp w of
        (Inl e, w1) \<Rightarrow> Some (Inl e, w1)
      | (Inr answer, w1) \<Rightarrow>
          (let response = py_strip (py_lower answer)
           in if response \<in> set [''y'', ''yes'']
              then Some (Inr (resolve_clarification px (ValueConfirmationClarification s g v)
                                (PyBool True) pr),
                         logged (ResolveClarification (ValueConfirmationClarification s g v)
                                   (PyBool True)) w1)
              else Some (Inr (resolve_clarification px (ValueConfirmationClarification s g v)
                                (PyBool False) pr),
                         logged (ResolveClarification (ValueConfirmationClarification s g v)
                                   (PyBool False)) w1)))"
| "handle_clarification px inp (CustomClarification s g d) pr w =
     (case show_custom_data d of
        Inl e \<Rightarrow> Some (Inl e, w)
      | Inr shown \<Rightarrow> resolve_with_input px inp (CustomClarification s g d) pr w)"
| "handle_clarification px inp (UnknownClarification s g) pr w =
     resolve_with_input px inp (UnknownClarification s g) pr w"

text \<open>The \<^verbatim>\<open>for\<close> loop over the snapshot; an exception leaves it at once.\<close>

fun for_each_clarification ::
  "'pr portia \<Rightarrow> console \<Rightarrow> clarification list \<Rightarrow> 'pr \<Rightarrow> world
     \<Rightarrow> ((pyexc + 'pr) \<times> world) option" where
  "for_each_clarification px inp [] pr w = Some (Inr pr, w)"
| "for_each_clarification px inp (c # cs) pr w =
     (case handle_clarification px inp c pr w of
        None \<Rightarrow> None
      | Some (Inl e, w1) \<Rightarrow> Some (Inl e, w1)
      | Some (Inr pr1, w1) \<Rightarrow> for_each_clarification px inp cs pr1 w1)"

partial_function (option) handle_clarifications ::
  "'pr portia \<Rightarrow> console \<Rightarrow> 'pr \<Rightarrow> world \<Rightarrow> ((pyexc + 'pr) \<times> world) option" where
  "handle_clarifications px inp plan_run w =
     (if state px plan_run \<noteq> NEED_CLARIFICATION then Some (Inr plan_run, w)
      else
        (case for_each_clarification px inp (get_outstanding_clarifications px plan_run) plan_run w of
           None \<Rightarrow> None
         | Some (Inl e, w1) \<Rightarrow> Some (Inl e, w1)
         | Some (Inr pr1, w1) \<Rightarrow>
             if state px pr1 = NEED_CLARIFICATION
             then handle_clarifications px inp (resume px pr1) (logged Resume w1)
             else handle_clarifications px inp pr1 w1))"

section \<open>The callback handler: \<^verbatim>\<open>FeatureResearchClarificationHandler\<close>\<close>

text \<open>
  The handler installed in the executor's execution hooks answers through the two
  callbacks it is given. A method's effect is the callback it invokes.
\<close>

datatype callback =
    OnResolution clarification pyobj
  | OnError clarification pyobj

definition handle_action_clarification ::
  "console \<Rightarrow> clarification \<Rightarrow> world \<Rightarrow> (pyexc + callback) \<times> world" where
  "handle_action_clarification inp c w =
     (case py_input inp w of
        (Inl e, w1) \<Rightarrow> (Inl e, w1)
      | (Inr ready, w1) \<Rightarrow> (Inr (OnResolution c (PyStr ''completed'')), w1))"

definition handle_input_clarification ::
  "console \<Rightarrow> clarification \<Rightarrow> world \<Rightarrow> (pyexc + callback) \<times> world" where
  "handle_input_clarification inp c w =
     (case py_input inp w of
        (Inl e, w1) \<Rightarrow> (Inl e, w1)
      | (Inr user_input, w1) \<Rightarrow> (Inr (OnResolution c (PyStr user_input)), w1))"

definition handle_value_confirmation_clarification ::
  "console \<Rightarrow> clarification \<Rightarrow> world \<Rightarrow> (pyexc + callback) \<times> world" where
  "handle_value_confirmation_clarification inp c w =
     (case py_input inp w of
        (Inl e, w1) \<Rightarrow> (Inl e, w1)
      | (Inr answer, w1) \<Rightarrow>
          (let response = py_strip (py_lower answer)
           in if response \<in> set [''y'', ''yes'']
              then (Inr (OnResolution c (PyBool True)), w1)
              else (Inr (OnError c (PyStr ''User rejected the value'')), w1)))"

section \<open>Concrete consoles and a scripted executor\<close>

text \<open>
  For evaluating the model on concrete runs: a console holding a given finite list of
  lines, and an executor that follows a script. A scripted plan run holds the batches
  of clarifications it will still raise, whether it completes or fails once they are
  exhausted, and its raw final output;
  resolving and waiting leave it unchanged and each resume moves it to the next batch.
\<close>

definition console_of :: "string list \<Rightarrow> console" where
  "console_of ls n = (if n < length ls then Some (ls ! n) else None)"

definition world0 :: world where
  "world0 = \<lparr>stdin_pos = 0, calls = []\<rparr>"

record scripted_run =
  batches :: "clarification list list"
  succeeds :: bool
  raw_output :: pyobj

definition sample_analysis :: feature_analysis where
  "sample_analysis =
     \<lparr>fa_feature_name = ''Dark mode'', fa_description = ''A dark colour theme'',
      fa_research_sources = [], fa_market_analysis = ''Common'',
      fa_technical_considerations = [''CSS variables''],
      fa_implementation_approaches = [''Theme toggle''],
      fa_risks_and_challenges = [], fa_success_metrics = [''Adoption''],
      fa_recommendations = ''Build it''\<rparr>"

definition scripted :: "(plan \<Rightarrow> scripted_run) \<Rightarrow> scripted_run portia" where
  "scripted script =
     \<lparr>run_plan = script,
      resolve_clarification = (\<lambda>c v pr. pr),
      wait_for_ready = (\<lambda>pr. pr),
      resume = (\<lambda>pr. pr\<lparr>batches := tl (batches pr)\<rparr>),
      state = (\<lambda>pr. if batches pr \<noteq> [] then NEED_CLARIFICATION
                    else if succeeds pr then COMPLETE else FAILED),
      get_outstanding_clarifications = (\<lambda>pr. case batches pr of [] \<Rightarrow> [] | b # bs \<Rightarrow> b),
      final_analysis = (\<lambda>pr. Inr (AnalysisValue sample_analysis)),
      final_page_id = (\<lambda>pr. Inr ''page-1''),
      final_issue_id = (\<lambda>pr. Inr ''PRA-8''),
      final_task =
        (\<lambda>pr. Inr \<lparr>lt_task_id = ''T-1'', lt_title = ''Task'', lt_description = ''Do it''\<rparr>),
      final_raw = raw_output\<rparr>"


definition no_plans :: "plan \<Rightarrow> scripted_run" where
  "no_plans p = \<lparr>batches = [], succeeds = True, raw_output = PyNone\<rparr>"

definition confirm_rollout :: clarification where
  "confirm_rollout = ValueConfirmationClarification 0 ''Roll out to everyone?'' (PyStr ''all users'')"

definition authorise_linear :: clarification where
  "authorise_linear = ActionClarification 0 ''Authorise access to Linear'' ''https://linear.app/oauth''"

definition pick_team :: clarification where
  "pick_team = MultipleChoiceClarification 1 ''Which team?'' [PyStr ''A'', PyStr ''B'', PyStr ''C'']"

definition odd_kind :: clarification where
  "odd_kind = UnknownClarification 2 ''Something new''"

section \<open>The shape of a run of the loop\<close>

text \<open>
  The calls of a run, split into passes. A pass starts in \<^verbatim>\<open>NEED_CLARIFICATION\<close> and
  answers every clarification of the set outstanding at its start, one call each and
  in order (a wait for an action, a resolution for any other kind). Only then can a
  resume follow, and one does exactly when the state is still \<^verbatim>\<open>NEED_CLARIFICATION\<close>
  after the answers, which is the test the source makes before it resumes; the next pass
  then starts from the plan run the resume returned. \<open>complete_passes px pr tr pr'\<close>
  says that the calls \<open>tr\<close>, made from \<open>pr\<close> on, are such passes and end with the plan
  run \<open>pr'\<close>.
\<close>

fun apply_call :: "'pr portia \<Rightarrow> 'pr \<Rightarrow> call \<Rightarrow> 'pr" where
  "apply_call px pr WaitForReady = wait_for_ready px pr"
| "apply_call px pr (ResolveClarification c v) = resolve_clarification px c v pr"
| "apply_call px pr Resume = resume px pr"
| "apply_call px pr (RunPlan p) = run_plan px p"

definition replay :: "'pr portia \<Rightarrow> call list \<Rightarrow> 'pr \<Rightarrow> 'pr" where
  "replay px ks pr = foldl (apply_call px) pr ks"

fun answers :: "clarification \<Rightarrow> call \<Rightarrow> bool" where
  "answers (ActionClarification s g u) k = (k = WaitForReady)"
| "answers c (ResolveClarification c' v) = (c' = c)"
| "answers c k = False"

inductive complete_passes :: "'pr portia \<Rightarrow> 'pr \<Rightarrow> call list \<Rightarrow> 'pr \<Rightarrow> bool"
  for px :: "'pr portia" where
  finished:
    "state px pr \<noteq> NEED_CLARIFICATION \<Longrightarrow> complete_passes px pr [] pr"
| pass_then_resume:
    "state px pr = NEED_CLARIFICATION \<Longrightarrow>
     list_all2 answers (get_outstanding_clarifications px pr) seg \<Longrightarrow>
     state px (replay px seg pr) = NEED_CLARIFICATION \<Longrightarrow>
     complete_passes px (resume px (replay px seg pr)) rest pr' \<Longrightarrow>
     complete_passes px pr (seg @ Resume # rest) pr'"
| pass_settles:
    "state px pr = NEED_CLARIFICATION \<Longrightarrow>
     list_all2 answers (get_outstanding_clarifications px pr) seg \<Longrightarrow>
     state px (replay px seg pr) \<noteq> NEED_CLARIFICATION \<Longrightarrow>
     complete_passes px pr seg (replay px seg pr)"

text \<open>
  \<open>interrupted_passes px pr tr\<close>: the calls \<open>tr\<close> are complete passes, each followed by
  its resume, and then a pass that stops short, with the answers to the clarifications
  that come first in its set and no resume after them.
\<close>

inductive interrupted_passes :: "'pr portia \<Rightarrow> 'pr \<Rightarrow> call list \<Rightarrow> bool"
  for px :: "'pr portia" where
  pass_interrupted:
    "state px pr = NEED_CLARIFICATION \<Longrightarrow>
     length seg < length (get_outstanding_clarifications px pr) \<Longrightarrow>
     list_all2 answers (take (length seg) (get_outstanding_clarifications px pr)) seg \<Longrightarrow>
     interrupted_passes px pr seg"
| pass_resumed_first:
    "state px pr = NEED_CLARIFICATION \<Longrightarrow>
     list_all2 answers (get_outstanding_clarifications px pr) seg \<Longrightarrow>
     state px (replay px seg pr) = NEED_CLARIFICATION \<Longrightarrow>
     interrupted_passes px (resume px (replay px seg pr)) rest \<Longrightarrow>
     interrupted_passes px pr (seg @ Resume # rest)"

text \<open>How a run of the loop ended, with the calls it made: returned or raised.\<close>

fun run_shape :: "'pr portia \<Rightarrow> 'pr \<Rightarrow> call list \<Rightarrow> pyexc + 'pr \<Rightarrow> bool" where
  "run_shape px pr tr (Inr pr') =
     (state px pr' \<noteq> NEED_CLARIFICATION \<and> complete_passes px pr tr pr')"
| "run_shape px pr tr (Inl e) = interrupted_passes px pr tr"

text \<open>
  A line is a valid selection among \<open>opts\<close> when \<^verbatim>\<open>int\<close> accepts it and the number is
  between 1 and the number of options. Answers are always eventually valid for a
  clarification when, from every position of the console on, a valid selection (or the
  end of input) is reached; only the multiple-choice kind with a non-empty list of options
  can reject a line.
\<close>

definition valid_choice :: "pyobj list \<Rightarrow> string \<Rightarrow> bool" where
  "valid_choice opts line =
     (case py_int line of None \<Rightarrow> False | Some k \<Rightarrow> 1 \<le> k \<and> k \<le> int (length opts))"

definition settles :: "console \<Rightarrow> pyobj list \<Rightarrow> nat \<Rightarrow> bool" where
  "settles inp opts n = (case inp n of None \<Rightarrow> True | Some line \<Rightarrow> valid_choice opts line)"

fun eventually_answered :: "console \<Rightarrow> clarification \<Rightarrow> bool" where
  "eventually_answered inp (MultipleChoiceClarification s g opts) =
     (opts = [] \<or> (\<forall>p. \<exists>n. settles inp opts (p + n)))"
| "eventually_answered inp c = True"

definition endless :: "string \<Rightarrow> console" where
  "endless line n = Some line"

section \<open>Plans and workflow drivers\<close>

text \<open>
  Every driver builds a plan, runs it, calls \<open>handle_clarifications\<close> when the run
  comes back in \<^verbatim>\<open>NEED_CLARIFICATION\<close>, and then looks at the state. The drivers
  below are those of \<^verbatim>\<open>server.py\<close>.
\<close>

record feature_request =
  fr_name :: string
  fr_description :: string



definition run_plan_and_resolve ::
  "'pr portia \<Rightarrow> console \<Rightarrow> plan \<Rightarrow> world \<Rightarrow> ((pyexc + 'pr) \<times> world) option" where
  "run_plan_and_resolve px inp p w =
     (let plan_run = run_plan px p;
          w1 = logged (RunPlan p) w
      in if state px plan_run = NEED_CLARIFICATION
         then handle_clarifications px inp plan_run w1
         else Some (Inr plan_run, w1))"













section \<open>Research sessions and the HTTP surface (\<^verbatim>\<open>server.py\<close>)\<close>

record research_output =
  ro_feature_name :: string
  ro_analysis :: feature_analysis
  ro_notion_page_id :: "string option"
  ro_linear_issue_id :: "string option"

record session =
  status :: string
  progress :: int
  result :: "research_output option"
  error :: "string option"

record research_session_response = session +
  session_id :: string

type_synonym sessions = "string \<rightharpoonup> session"

datatype http_exception = HTTPException nat string









text \<open>
  \<^verbatim>\<open>POST /research\<close>. \<open>stamp\<close> is the formatted current time. The function returns
  the response, the session map and the background task it has scheduled.
\<close>

definition new_session_id :: "string \<Rightarrow> feature_request \<Rightarrow> string" where
  "new_session_id stamp req =
     ''research_'' @ stamp @ ''_''
       @ map (\<lambda>c. if c = CHR '' '' then CHR ''_'' else c) (fr_name req)"

definition start_research ::
  "string \<Rightarrow> feature_request \<Rightarrow> sessions
     \<Rightarrow> research_session_response \<times> sessions \<times> (string \<times> feature_request)" where
  "start_research stamp req research_sessions =
     (let sid = new_session_id stamp req
      in (\<lparr>status = ''started'', progress = 0, result = None, error = None, session_id = sid\<rparr>,
          research_sessions(sid \<mapsto>
            \<lparr>status = ''initializing'', progress = 0, result = None, error = None\<rparr>),
          (sid, req)))"

definition get_research_status ::
  "sessions \<Rightarrow> string \<Rightarrow> http_exception + research_session_response" where
  "get_research_status research_sessions sid =
     (case research_sessions sid of
        None \<Rightarrow> Inl (HTTPException 404 ''Research session not found'')
      | Some s \<Rightarrow>
          Inr \<lparr>status = status s, progress = progress s, result = result s, error = error s,
               session_id = sid\<rparr>)"

section \<open>Start-up: the credential check\<close>

text \<open>
  The three variants open with the same check. \<open>env\<close> is the environment after
  \<^verbatim>\<open>load_dotenv()\<close>. A variant's start-up yields the lines it printed, whether the
  process exited, and the environment it left. The leading symbols of the messages are
  given by their UTF-8 bytes.
\<close>

datatype variant = Server | WorkingBackend | Initial

datatype startup = Exited int | Proceeds string

definition cross_mark :: string where
  "cross_mark = [CHR 0xE2, CHR 0x9D, CHR 0x8C]"

definition magnifier :: string where
  "magnifier = [CHR 0xF0, CHR 0x9F, CHR 0x94, CHR 0x8D]"

definition missing_key_message :: "string list" where
  "missing_key_message =
     [cross_mark @ '' Error: PORTIA_API_KEY environment variable is required'',
      ''Please set PORTIA_API_KEY in your .env file'',
      ''You can get your API key from: https://app.portialabs.ai > API Keys'']"

fun py_str_nat :: "nat \<Rightarrow> string" where
  "py_str_nat n =
     (if n < 10 then [char_of (48 + n)]
      else py_str_nat (n div 10) @ [char_of (48 + n mod 10)])"

definition debug_lines :: "variant \<Rightarrow> string \<Rightarrow> string list" where
  "debug_lines v portia_api_key =
     (case v of
        Server \<Rightarrow> []
      | _ \<Rightarrow>
          [magnifier @ '' Debug: Found PORTIA_API_KEY: '' @ take 8 portia_api_key
             @ ''... (length: '' @ py_str_nat (length portia_api_key) @ '')'',
           magnifier @ '' Debug: Full API key: '' @ portia_api_key])"

definition module_startup ::
  "variant \<Rightarrow> (string \<rightharpoonup> string) \<Rightarrow> string list \<times> startup \<times> (string \<rightharpoonup> string)" where
  "module_startup v env =
     (case env ''PORTIA_API_KEY'' of
        None \<Rightarrow> (missing_key_message, Exited 1, env)
      | Some portia_api_key \<Rightarrow>
          if portia_api_key = [] then (missing_key_message, Exited 1, env)
          else (debug_lines v portia_api_key, Proceeds portia_api_key,
                env(''PORTIA_API_KEY'' \<mapsto> portia_api_key)))"

section \<open>Listing comments (\<^verbatim>\<open>monitor_linear_comments\<close>)\<close>

text \<open>
  The decoding of the list-comments response is the same text in \<^verbatim>\<open>server.py\<close> and
  \<^verbatim>\<open>working_backend.py\<close>. \<^verbatim>\<open>json.loads\<close> is library code and a parameter \<open>loads\<close>
  of the model; decoding never yields a \<open>PyObject\<close>. The operators below are Python's
  \<^verbatim>\<open>in\<close>, subscripting, \<^verbatim>\<open>len\<close>, truth value and \<^verbatim>\<open>hasattr\<close>/attribute access, the
  last for the attribute names the source asks for (\<^verbatim>\<open>content\<close>, \<^verbatim>\<open>text\<close>), which no
  built-in type has.
\<close>

fun py_substring :: "string \<Rightarrow> string \<Rightarrow> bool" where
  "py_substring k [] = (k = [])"
| "py_substring k (c # cs) = (take (length k) (c # cs) = k \<or> py_substring k cs)"

fun py_contains :: "string \<Rightarrow> pyobj \<Rightarrow> pyexc + bool" where
  "py_contains k (PyDict kv) = Inr (map_of kv k \<noteq> None)"
| "py_contains k (PyList xs) = Inr (PyStr k \<in> set xs)"
| "py_contains k (PyStr s) = Inr (py_substring k s)"
| "py_contains k v = Inl (TypeError ''argument is not iterable'')"

fun py_getitem :: "pyobj \<Rightarrow> string \<Rightarrow> pyexc + pyobj" where
  "py_getitem (PyDict kv) k = (case map_of kv k of None \<Rightarrow> Inl (KeyError k) | Some v \<Rightarrow> Inr v)"
| "py_getitem v k = Inl (TypeError ''indices must be integers'')"

fun py_first :: "pyobj \<Rightarrow> pyexc + pyobj" where
  "py_first (PyList (x # xs)) = Inr x"
| "py_first (PyStr (c # cs)) = Inr (PyStr [c])"
| "py_first (PyList []) = Inl (IndexError ''list index out of range'')"
| "py_first (PyStr []) = Inl (IndexError ''string index out of range'')"
| "py_first (PyDict kv) = Inl (KeyError ''0'')"
| "py_first v = Inl (TypeError ''object is not subscriptable'')"

fun py_len :: "pyobj \<Rightarrow> pyexc + nat" where
  "py_len (PyList xs) = Inr (length xs)"
| "py_len (PyStr s) = Inr (length s)"
| "py_len (PyDict kv) = Inr (length kv)"
| "py_len v = Inl (TypeError ''object has no len()'')"

fun py_truthy :: "pyobj \<Rightarrow> bool" where
  "py_truthy PyNone = False"
| "py_truthy (PyBool b) = b"
| "py_truthy (PyInt i) = (i \<noteq> 0)"
| "py_truthy (PyStr s) = (s \<noteq> [])"
| "py_truthy (PyList xs) = (xs \<noteq> [])"
| "py_truthy (PyDict kv) = (kv \<noteq> [])"
| "py_truthy (PyObject cls attrs) = True"

fun py_getattr :: "pyobj \<Rightarrow> string \<Rightarrow> pyobj option" where
  "py_getattr (PyObject cls attrs) a = map_of attrs a"
| "py_getattr v a = None"

definition json_loads :: "(string \<Rightarrow> pyexc + pyobj) \<Rightarrow> pyobj \<Rightarrow> pyexc + pyobj" where
  "json_loads loads v =
     (case v of
        PyStr s \<Rightarrow> loads s
      | _ \<Rightarrow> Inl (TypeError ''the JSON object must be str, bytes or bytearray''))"

text \<open>
  The inner \<^verbatim>\<open>try\<close>: the text is decoded and kept when it is a list; every exception,
  that of reading the text included, leaves the empty list.
\<close>

definition decode_comments_text :: "(string \<Rightarrow> pyexc + pyobj) \<Rightarrow> pyexc + pyobj \<Rightarrow> pyobj list" where
  "decode_comments_text loads text =
     (case text of
        Inl e \<Rightarrow> []
      | Inr t \<Rightarrow>
          (case json_loads loads t of
             Inl e \<Rightarrow> []
           | Inr (PyList raw_comments) \<Rightarrow> raw_comments
           | Inr other \<Rightarrow> []))"

text \<open>The branch for a response that is a string; its \<^verbatim>\<open>try\<close> catches every exception.\<close>

definition comments_of_string :: "(string \<Rightarrow> pyexc + pyobj) \<Rightarrow> string \<Rightarrow> pyobj list" where
  "comments_of_string loads comments_output =
     (case loads comments_output of
        Inl e \<Rightarrow> []
      | Inr (PyDict parsed_response) \<Rightarrow>
          (case map_of parsed_response ''content'' of
             None \<Rightarrow> []
           | Some (PyList (first # rest)) \<Rightarrow>
               (case py_contains ''text'' first of
                  Inl e \<Rightarrow> []
                | Inr has_text \<Rightarrow>
                    if has_text then decode_comments_text loads (py_getitem first ''text'')
                    else [])
           | Some content \<Rightarrow> [])
      | Inr parsed_response \<Rightarrow> [])"

text \<open>
  The branch for a structured response. Its tests on the content are outside any
  \<^verbatim>\<open>try\<close> of their own, so \<^verbatim>\<open>len\<close> and the subscript can raise.
\<close>

definition comments_of_object :: "(string \<Rightarrow> pyexc + pyobj) \<Rightarrow> pyobj \<Rightarrow> pyexc + pyobj list" where
  "comments_of_object loads comments_output =
     (case py_getattr comments_output ''content'' of
        None \<Rightarrow> Inr []
      | Some content \<Rightarrow>
          if \<not> py_truthy content then Inr []
          else
            (case py_len content of
               Inl e \<Rightarrow> Inl e
             | Inr n \<Rightarrow>
                 if n = 0 then Inr []
                 else
                   (case py_first content of
                      Inl e \<Rightarrow> Inl e
                    | Inr first \<Rightarrow>
                        (case py_getattr first ''text'' of
                           None \<Rightarrow> Inr []
                         | Some text \<Rightarrow> Inr (decode_comments_text loads (Inr text))))))"

definition parse_comments_output :: "(string \<Rightarrow> pyexc + pyobj) \<Rightarrow> pyobj \<Rightarrow> pyexc + pyobj list" where
  "parse_comments_output loads comments_output =
     (case comments_output of
        PyStr s \<Rightarrow> Inr (comments_of_string loads s)
      | _ \<Rightarrow> comments_of_object loads comments_output)"

definition comments_plan :: "string \<Rightarrow> plan" where
  "comments_plan issue_id =
     \<lparr>plan_query = ''List comments for Linear issue '' @ issue_id,
      structured_output_schema = LinearCommentsListOutput,
      plan_steps =
        [(''Get all comments for the Linear issue with ID '' @ issue_id @ ''. ''
            @ ''If this is a PRA-8 issue, make sure to fetch all comments including any ''
            @ ''that might be in the description or comments section.'',
          ''portia:mcp:mcp.linear.app:list_comments'')]\<rparr>"

text \<open>
  \<^verbatim>\<open>monitor_linear_comments\<close> of \<^verbatim>\<open>server.py\<close>: one pass over the single issue id,
  inside a \<^verbatim>\<open>try\<close> that turns every exception into the empty result.
\<close>

definition monitor_linear_comments ::
  "'pr portia \<Rightarrow> console \<Rightarrow> (string \<Rightarrow> pyexc + pyobj) \<Rightarrow> string \<Rightarrow> world
     \<Rightarrow> (pyobj list \<times> world) option" where
  "monitor_linear_comments px inp loads issue_id w =
     (case run_plan_and_resolve px inp (comments_plan issue_id) w of
        None \<Rightarrow> None
      | Some (Inl e, w1) \<Rightarrow> Some ([], w1)
      | Some (Inr comments_run, w1) \<Rightarrow>
          if state px comments_run = COMPLETE
          then (case parse_comments_output loads (final_raw px comments_run) of
                  Inl e \<Rightarrow> Some ([], w1)
                | Inr comments_data \<Rightarrow> Some (comments_data, w1))
          else Some ([], w1))"

text \<open>
  What \<^verbatim>\<open>process_comments_with_user\<close> of \<^verbatim>\<open>working_backend.py\<close> extracts from one
  comment. \<open>str_of\<close> is Python's \<^verbatim>\<open>str\<close>.
\<close>

definition comment_author_name :: "(pyobj \<Rightarrow> string) \<Rightarrow> pyobj \<Rightarrow> pyexc + pyobj" where
  "comment_author_name str_of comment =
     (case py_contains ''author'' comment of
        Inl e \<Rightarrow> Inl e
      | Inr has_author \<Rightarrow>
          if \<not> has_author then Inr (PyStr ''Unknown'')
          else
            (case py_getitem comment ''author'' of
               Inl e \<Rightarrow> Inl e
             | Inr (PyDict author) \<Rightarrow>
                 Inr (case map_of author ''name'' of None \<Rightarrow> PyStr ''Unknown'' | Some v \<Rightarrow> v)
             | Inr author \<Rightarrow> Inr (PyStr (str_of author))))"

definition comment_body :: "pyobj \<Rightarrow> pyexc + pyobj" where
  "comment_body comment =
     (case comment of
        PyDict kv \<Rightarrow> Inr (case map_of kv ''body'' of None \<Rightarrow> PyStr ''No content'' | Some v \<Rightarrow> v)
      | _ \<Rightarrow> Inl (AttributeError ''object has no attribute get''))"

section \<open>Sample inputs\<close>

definition two_batches :: scripted_run where
  "two_batches =
     \<lparr>batches = [[authorise_linear, odd_kind], [pick_team]], succeeds = True,
      raw_output = PyNone\<rparr>"

definition one_confirmation :: scripted_run where
  "one_confirmation = \<lparr>batches = [[confirm_rollout]], succeeds = True, raw_output = PyNone\<rparr>"


definition no_environment :: "string \<rightharpoonup> string" where
  "no_environment = Map.empty"

text \<open>
  A list-comments response in its two shapes. The comments are the JSON text
  \<^verbatim>\<open>[{"id":"c1","body":"ok","author":{"name":"Bo"}}]\<close>; the structured response is
  an instance of \<^verbatim>\<open>LinearCommentsListOutput\<close>, whose \<^verbatim>\<open>content\<close> is declared as a list of
  dictionaries; the string response is the same envelope serialised. \<open>sample_loads\<close>
  decodes these two texts as \<^verbatim>\<open>json.loads\<close> does and rejects every other text.
\<close>

definition double_quote :: char where
  "double_quote = CHR 0x22"

definition json_string :: "string \<Rightarrow> string" where
  "json_string s =
     double_quote # concat (map (\<lambda>c. if c = double_quote then [CHR 0x5C, c] else [c]) s)
       @ [double_quote]"

definition bo_comments_json :: string where
  "bo_comments_json =
     ''[{'' @ json_string ''id'' @ '':'' @ json_string ''c1'' @ '',''
       @ json_string ''body'' @ '':'' @ json_string ''ok'' @ '',''
       @ json_string ''author'' @ '':{'' @ json_string ''name'' @ '':'' @ json_string ''Bo''
       @ ''}}]''"

definition bo_comment :: pyobj where
  "bo_comment =
     PyDict [(''id'', PyStr ''c1''), (''body'', PyStr ''ok''),
             (''author'', PyDict [(''name'', PyStr ''Bo'')])]"

definition bo_content :: pyobj where
  "bo_content = PyList [PyDict [(''type'', PyStr ''text''), (''text'', PyStr bo_comments_json)]]"

definition structured_response :: pyobj where
  "structured_response =
     PyObject ''LinearCommentsListOutput''
       [(''content'', bo_content), (''meta'', PyDict []), (''isError'', PyBool False)]"

definition bo_envelope_json :: string where
  "bo_envelope_json =
     ''{'' @ json_string ''content'' @ '': [{'' @ json_string ''type'' @ '': ''
       @ json_string ''text'' @ '', '' @ json_string ''text'' @ '': ''
       @ json_string bo_comments_json @ ''}], '' @ json_string ''meta'' @ '': {}, ''
       @ json_string ''isError'' @ '': false}''"

definition sample_loads :: "string \<Rightarrow> pyexc + pyobj" where
  "sample_loads s =
     (if s = bo_envelope_json
      then Inr (PyDict [(''content'', bo_content), (''meta'', PyDict []), (''isError'', PyBool False)])
      else if s = bo_comments_json then Inr (PyList [bo_comment])
      else Inl (ValueError ''Expecting value''))"

definition listing_structured :: "plan \<Rightarrow> scripted_run" where
  "listing_structured p = \<lparr>batches = [], succeeds = True, raw_output = structured_response\<rparr>"

definition listing_as_string :: "plan \<Rightarrow> scripted_run" where
  "listing_as_string p = \<lparr>batches = [], succeeds = True, raw_output = PyStr bo_envelope_json\<rparr>"







section \<open>Stepping lemmas\<close>

lemma py_input_Some: "inp (stdin_pos w) = Some line \<Longrightarrow> py_input inp w = (Inr line, w\<lparr>stdin_pos := Suc (stdin_pos w)\<rparr>)"
  by (simp add: py_input_def)

lemma py_input_None: "inp (stdin_pos w) = None \<Longrightarrow> py_input inp w = (Inl EOFError, w)"
  by (simp add: py_input_def)

lemma resolve_with_input_Some:
  "inp (stdin_pos w) = Some line \<Longrightarrow>
   resolve_with_input px inp c pr w =
     Some (Inr (resolve_clarification px c (PyStr line) pr),
           logged (ResolveClarification c (PyStr line)) (w\<lparr>stdin_pos := Suc (stdin_pos w)\<rparr>))"
  by (simp add: resolve_with_input_def py_input_Some)

lemma handle_clarifications_done:
  "state px pr \<noteq> NEED_CLARIFICATION \<Longrightarrow> handle_clarifications px inp pr w = Some (Inr pr, w)"
  by (subst handle_clarifications.simps) simp

lemma handle_clarifications_pass:
  "state px pr = NEED_CLARIFICATION \<Longrightarrow>
   for_each_clarification px inp (get_outstanding_clarifications px pr) pr w = Some (Inr pr1, w1) \<Longrightarrow>
   handle_clarifications px inp pr w =
     (if state px pr1 = NEED_CLARIFICATION
      then handle_clarifications px inp (resume px pr1) (logged Resume w1)
      else handle_clarifications px inp pr1 w1)"
  by (subst handle_clarifications.simps) simp

lemma handle_clarifications_raise:
  "state px pr = NEED_CLARIFICATION \<Longrightarrow>
   for_each_clarification px inp (get_outstanding_clarifications px pr) pr w = Some (Inl e, w1) \<Longrightarrow>
   handle_clarifications px inp pr w = Some (Inl e, w1)"
  by (subst handle_clarifications.simps) simp

lemma multiple_choice_loop_eof:
  "inp (stdin_pos w) = None \<Longrightarrow> multiple_choice_loop px inp c opts pr w = Some (Inl EOFError, w)"
  by (subst multiple_choice_loop.simps) (simp add: py_input_None)

lemma multiple_choice_loop_reject:
  "inp (stdin_pos w) = Some line \<Longrightarrow> \<not> valid_choice opts line \<Longrightarrow>
   multiple_choice_loop px inp c opts pr w =
     multiple_choice_loop px inp c opts pr (w\<lparr>stdin_pos := Suc (stdin_pos w)\<rparr>)"
  by (subst multiple_choice_loop.simps)
     (auto simp: py_input_Some valid_choice_def split: option.splits)

lemma multiple_choice_loop_accept:
  "inp (stdin_pos w) = Some line \<Longrightarrow> py_int line = Some k \<Longrightarrow> 1 \<le> k \<Longrightarrow> k \<le> int (length opts) \<Longrightarrow>
   multiple_choice_loop px inp c opts pr w =
     Some (Inr (resolve_clarification px c (opts ! nat (k - 1)) pr),
           logged (ResolveClarification c (opts ! nat (k - 1)))
             (w\<lparr>stdin_pos := Suc (stdin_pos w)\<rparr>))"
  by (subst multiple_choice_loop.simps) (simp add: py_input_Some)

lemma py_input_raise:
  "py_input inp w = (Inl e, w1) \<Longrightarrow> e = EOFError \<and> w1 = w \<and> inp (stdin_pos w) = None"
  by (auto simp: py_input_def split: option.splits)

lemma py_input_calls: "py_input inp w = (r, w1) \<Longrightarrow> calls w1 = calls w"
  by (auto simp: py_input_def split: option.splits)

lemma calls_logged: "calls (logged k w) = calls w @ [k]"
  by (simp add: logged_def)

lemma console_of_nth: "n < length ls \<Longrightarrow> console_of ls n = Some (ls ! n)"
  by (simp add: console_of_def)

lemma console_of_end: "length ls \<le> n \<Longrightarrow> console_of ls n = None"
  by (simp add: console_of_def)

section \<open>The scripted executor\<close>

lemma scripted_state:
  "state (scripted sc) pr =
     (if batches pr \<noteq> [] then NEED_CLARIFICATION else if succeeds pr then COMPLETE else FAILED)"
  by (simp add: scripted_def)

lemma scripted_resume: "resume (scripted sc) pr = pr\<lparr>batches := tl (batches pr)\<rparr>"
  by (simp add: scripted_def)

lemma scripted_resolve: "resolve_clarification (scripted sc) c v pr = pr"
  by (simp add: scripted_def)

lemma scripted_wait: "wait_for_ready (scripted sc) pr = pr"
  by (simp add: scripted_def)

lemma scripted_outstanding:
  "get_outstanding_clarifications (scripted sc) pr = (case batches pr of [] \<Rightarrow> [] | b # bs \<Rightarrow> b)"
  by (simp add: scripted_def)

lemma scripted_run_plan: "run_plan (scripted sc) p = sc p"
  by (simp add: scripted_def)

lemma scripted_rank:
  "state (scripted sc) pr = NEED_CLARIFICATION \<Longrightarrow>
   length (batches (resume (scripted sc) pr)) < length (batches pr)"
  by (cases "batches pr") (simp_all add: scripted_state scripted_resume split: if_splits)

lemma run_plan_and_resolve_direct:
  "state px (run_plan px p) \<noteq> NEED_CLARIFICATION \<Longrightarrow>
   run_plan_and_resolve px inp p w = Some (Inr (run_plan px p), logged (RunPlan p) w)"
  by (simp add: run_plan_and_resolve_def Let_def)




section \<open>The loop runs complete passes\<close>

lemma multiple_choice_loop_outcome:
  assumes run: "multiple_choice_loop px inp c opts pr w = Some y"
  shows "(\<forall>pr1 w1. y = (Inr pr1, w1) \<longrightarrow>
           (\<exists>v. calls w1 = calls w @ [ResolveClarification c v]
                \<and> pr1 = resolve_clarification px c v pr))
       \<and> (\<forall>e w1. y = (Inl e, w1) \<longrightarrow>
            calls w1 = calls w \<and> e = EOFError \<and> inp (stdin_pos w1) = None)"
proof (rule multiple_choice_loop.raw_induct[where P="\<lambda>px inp c opts pr w y.
          (\<forall>pr1 w1. y = (Inr pr1, w1) \<longrightarrow>
           (\<exists>v. calls w1 = calls w @ [ResolveClarification c v]
                \<and> pr1 = resolve_clarification px c v pr))
       \<and> (\<forall>e w1. y = (Inl e, w1) \<longrightarrow>
            calls w1 = calls w \<and> e = EOFError \<and> inp (stdin_pos w1) = None)", OF _ run])
  fix f and px :: "'a portia" and inp c opts pr w y
  assume IH: "\<And>a b c d e g y. f a b c d e g = Some y \<Longrightarrow>
          (\<forall>pr1 w1. y = (Inr pr1, w1) \<longrightarrow>
           (\<exists>v. calls w1 = calls g @ [ResolveClarification c v]
                \<and> pr1 = resolve_clarification a c v e))
       \<and> (\<forall>e w1. y = (Inl e, w1) \<longrightarrow>
            calls w1 = calls g \<and> e = EOFError \<and> b (stdin_pos w1) = None)"
    and body: "(case py_input inp w of
        (Inl e, w1) \<Rightarrow> Some (Inl e, w1)
      | (Inr line, w1) \<Rightarrow>
          (case py_int line of
             None \<Rightarrow> f px inp c opts pr w1
           | Some choice \<Rightarrow>
               if 1 \<le> choice \<and> choice \<le> int (length opts)
               then Some (Inr (resolve_clarification px c (opts ! nat (choice - 1)) pr),
                          logged (ResolveClarification c (opts ! nat (choice - 1))) w1)
               else f px inp c opts pr w1)) = Some y"
  obtain a w2 where inpw: "py_input inp w = (a, w2)" by (cases "py_input inp w")
  have cw: "calls w2 = calls w" using inpw by (rule py_input_calls)
  show "(\<forall>pr1 w1. y = (Inr pr1, w1) \<longrightarrow>
           (\<exists>v. calls w1 = calls w @ [ResolveClarification c v]
                \<and> pr1 = resolve_clarification px c v pr))
       \<and> (\<forall>e w1. y = (Inl e, w1) \<longrightarrow>
            calls w1 = calls w \<and> e = EOFError \<and> inp (stdin_pos w1) = None)"
  proof (cases a)
    case (Inl e)
    with body inpw cw py_input_raise[of inp w e w2] show ?thesis by auto
  next
    case (Inr line)
    show ?thesis
    proof (cases "py_int line")
      case None
      with body inpw Inr have "f px inp c opts pr w2 = Some y" by simp
      from IH[OF this] show ?thesis unfolding cw .
    next
      case (Some choice)
      show ?thesis
      proof (cases "1 \<le> choice \<and> choice \<le> int (length opts)")
        case True
        with body inpw Inr Some cw show ?thesis
          by (auto simp: calls_logged)
      next
        case False
        with body inpw Inr Some have "f px inp c opts pr w2 = Some y" by simp
        from IH[OF this] show ?thesis unfolding cw .
      qed
    qed
  qed
qed

lemma multiple_choice_loop_call:
  assumes "multiple_choice_loop px inp c opts pr w = Some (Inr pr1, w1)"
  shows "\<exists>v. calls w1 = calls w @ [ResolveClarification c v] \<and> pr1 = resolve_clarification px c v pr"
  using multiple_choice_loop_outcome[OF assms] by simp

lemma multiple_choice_loop_raise:
  assumes "multiple_choice_loop px inp c opts pr w = Some (Inl e, w1)"
  shows "calls w1 = calls w \<and> e = EOFError \<and> inp (stdin_pos w1) = None"
  using multiple_choice_loop_outcome[OF assms] by simp

lemma resolve_with_input_raise:
  assumes "resolve_with_input px inp c pr w = Some (Inl e, w1)"
  shows "calls w1 = calls w \<and> e = EOFError \<and> inp (stdin_pos w1) = None"
proof -
  obtain a w2 where inpw: "py_input inp w = (a, w2)" by (cases "py_input inp w")
  have cw: "calls w2 = calls w" using inpw by (rule py_input_calls)
  show ?thesis
  proof (cases a)
    case (Inl e')
    with assms inpw cw py_input_raise[of inp w e' w2] show ?thesis
      by (simp add: resolve_with_input_def)
  next
    case (Inr line)
    with assms inpw show ?thesis by (simp add: resolve_with_input_def)
  qed
qed

lemma resolve_with_input_call:
  assumes "resolve_with_input px inp c pr w = Some (Inr pr1, w1)"
  shows "\<exists>v. calls w1 = calls w @ [ResolveClarification c v] \<and> pr1 = resolve_clarification px c v pr"
proof -
  obtain a w2 where inpw: "py_input inp w = (a, w2)" by (cases "py_input inp w")
  have cw: "calls w2 = calls w" using inpw by (rule py_input_calls)
  show ?thesis
  proof (cases a)
    case (Inl e)
    with assms inpw show ?thesis by (simp add: resolve_with_input_def)
  next
    case (Inr line)
    with assms inpw have "pr1 = resolve_clarification px c (PyStr line) pr"
      "w1 = logged (ResolveClarification c (PyStr line)) w2"
      by (simp_all add: resolve_with_input_def)
    with cw show ?thesis by (simp add: calls_logged)
  qed
qed

lemma handle_clarification_call:
  assumes "handle_clarification px inp c pr w = Some (Inr pr1, w1)"
  shows "\<exists>k. calls w1 = calls w @ [k] \<and> answers c k \<and> pr1 = apply_call px pr k"
proof -
  obtain a w2 where inpw: "py_input inp w = (a, w2)" by (cases "py_input inp w")
  have cw: "calls w2 = calls w" using inpw by (rule py_input_calls)
  have via_input: "\<exists>k. calls w1 = calls w @ [k] \<and> answers c k \<and> pr1 = apply_call px pr k"
    if "resolve_with_input px inp c pr w = Some (Inr pr1, w1)"
       "\<And>s g u. c \<noteq> ActionClarification s g u"
  proof -
    from resolve_with_input_call[OF that(1)] obtain v where
      v: "calls w1 = calls w @ [ResolveClarification c v]" "pr1 = resolve_clarification px c v pr"
      by blast
    have "answers c (ResolveClarification c v)" using that(2) by (cases c) auto
    with v show ?thesis by auto
  qed
  show ?thesis
  proof (cases c)
    case (ActionClarification s g u)
    show ?thesis
    proof (cases a)
      case (Inl e)
      with assms inpw ActionClarification show ?thesis by simp
    next
      case (Inr line)
      with assms inpw ActionClarification
      have "pr1 = wait_for_ready px pr" "w1 = logged WaitForReady w2" by simp_all
      with cw ActionClarification show ?thesis by (simp add: calls_logged)
    qed
  next
    case (InputClarification s g a)
    with assms show ?thesis by (intro via_input) simp_all
  next
    case (MultipleChoiceClarification s g opts)
    show ?thesis
    proof (cases "opts = []")
      case True
      with assms MultipleChoiceClarification show ?thesis by (intro via_input) simp_all
    next
      case False
      with assms MultipleChoiceClarification
      have "multiple_choice_loop px inp c opts pr w = Some (Inr pr1, w1)" by simp
      from multiple_choice_loop_call[OF this] obtain v where
        v: "calls w1 = calls w @ [ResolveClarification c v]" "pr1 = resolve_clarification px c v pr"
        by blast
      have "answers c (ResolveClarification c v)" using MultipleChoiceClarification by simp
      with v show ?thesis by auto
    qed
  next
    case (ValueConfirmationClarification s g v)
    show ?thesis
    proof (cases a)
      case (Inl e)
      with assms inpw ValueConfirmationClarification show ?thesis by simp
    next
      case (Inr line)
      show ?thesis
      proof (cases "py_strip (py_lower line) \<in> set [''y'', ''yes'']")
        case True
        with assms inpw ValueConfirmationClarification Inr
        have "pr1 = resolve_clarification px c (PyBool True) pr"
             "w1 = logged (ResolveClarification c (PyBool True)) w2"
          by (simp_all add: Let_def)
        with cw ValueConfirmationClarification show ?thesis by (simp add: calls_logged)
      next
        case False
        with assms inpw ValueConfirmationClarification Inr
        have "pr1 = resolve_clarification px c (PyBool False) pr"
             "w1 = logged (ResolveClarification c (PyBool False)) w2"
          by (simp_all add: Let_def)
        with cw ValueConfirmationClarification show ?thesis by (simp add: calls_logged)
      qed
    qed
  next
    case (CustomClarification s g d)
    with assms show ?thesis by (intro via_input) (simp_all split: sum.splits)
  next
    case (UnknownClarification s g)
    with assms show ?thesis by (intro via_input) simp_all
  qed
qed

lemma handle_clarification_raise:
  assumes "handle_clarification px inp c pr w = Some (Inl e, w1)"
  shows "calls w1 = calls w
       \<and> ((e = EOFError \<and> inp (stdin_pos w1) = None) \<or> (\<exists>cls. e = not_serialisable cls))"
proof -
  obtain a w2 where inpw: "py_input inp w = (a, w2)" by (cases "py_input inp w")
  have cw: "calls w2 = calls w" using inpw by (rule py_input_calls)
  have direct: "calls w1 = calls w \<and> e = EOFError \<and> inp (stdin_pos w1) = None"
    if "(case py_input inp w of (Inl e, w1) \<Rightarrow> Some (Inl e, w1)
         | (Inr line, w1) \<Rightarrow> Some (Inr (g line), h line w1)) = Some (Inl e, w1)"
    for g :: "string \<Rightarrow> 'a" and h
  proof (cases a)
    case (Inl e')
    with that inpw cw py_input_raise[of inp w e' w2] show ?thesis by simp
  next
    case (Inr line)
    with that inpw show ?thesis by simp
  qed
  show ?thesis
  proof (cases c)
    case (ActionClarification s g u)
    with assms show ?thesis using direct[of "\<lambda>ready. wait_for_ready px pr" "\<lambda>ready. logged WaitForReady"]
      by simp
  next
    case (InputClarification s g a)
    with assms show ?thesis using resolve_with_input_raise[of px inp c pr w e w1] by simp
  next
    case (MultipleChoiceClarification s g opts)
    with assms show ?thesis
      using resolve_with_input_raise[of px inp c pr w e w1]
        multiple_choice_loop_raise[of px inp c opts pr w e w1]
      by (cases "opts = []") simp_all
  next
    case (ValueConfirmationClarification s g v)
    show ?thesis
    proof (cases a)
      case (Inl e')
      with assms inpw cw ValueConfirmationClarification py_input_raise[of inp w e' w2]
      show ?thesis by simp
    next
      case (Inr line)
      with assms inpw ValueConfirmationClarification show ?thesis
        by (simp add: Let_def split: if_splits)
    qed
  next
    case (CustomClarification s g d)
    show ?thesis
    proof (cases "show_custom_data d")
      case (Inl e')
      with assms CustomClarification have out: "e = e'" "w1 = w" by simp_all
      from Inl obtain cls where "e' = not_serialisable cls"
        by (auto simp: show_custom_data_def json_dumps_def split: option.splits)
      with out show ?thesis by auto
    next
      case (Inr shown)
      with assms CustomClarification show ?thesis
        using resolve_with_input_raise[of px inp c pr w e w1] by simp
    qed
  next
    case (UnknownClarification s g)
    with assms show ?thesis using resolve_with_input_raise[of px inp c pr w e w1] by simp
  qed
qed

lemma replay_Cons: "replay px (k # ks) pr = replay px ks (apply_call px pr k)"
  by (simp add: replay_def)

lemma replay_Nil: "replay px [] pr = pr"
  by (simp add: replay_def)

lemma for_each_clarification_calls:
  "for_each_clarification px inp cs pr w = Some (Inr pr1, w1) \<Longrightarrow>
   \<exists>seg. calls w1 = calls w @ seg \<and> list_all2 answers cs seg \<and> pr1 = replay px seg pr"
proof (induction cs arbitrary: pr w)
  case Nil
  then show ?case by (simp add: replay_Nil)
next
  case (Cons c cs)
  from Cons.prems obtain pr2 w2 where
    h: "handle_clarification px inp c pr w = Some (Inr pr2, w2)" and
    r: "for_each_clarification px inp cs pr2 w2 = Some (Inr pr1, w1)"
    by (auto split: option.splits prod.splits sum.splits)
  from handle_clarification_call[OF h] obtain k where
    k: "calls w2 = calls w @ [k]" "answers c k" "pr2 = apply_call px pr k" by blast
  from Cons.IH[OF r] obtain seg where
    seg: "calls w1 = calls w2 @ seg" "list_all2 answers cs seg" "pr1 = replay px seg pr2" by blast
  have "calls w1 = calls w @ (k # seg)" using k seg by simp
  moreover have "list_all2 answers (c # cs) (k # seg)" using k seg by simp
  moreover have "pr1 = replay px (k # seg) pr" using k seg by (simp add: replay_Cons)
  ultimately show ?case by blast
qed

lemma for_each_clarification_raise:
  "for_each_clarification px inp cs pr w = Some (Inl e, w1) \<Longrightarrow>
   \<exists>seg. calls w1 = calls w @ seg \<and> length seg < length cs
         \<and> list_all2 answers (take (length seg) cs) seg
         \<and> ((e = EOFError \<and> inp (stdin_pos w1) = None) \<or> (\<exists>cls. e = not_serialisable cls))"
proof (induction cs arbitrary: pr w)
  case Nil
  then show ?case by simp
next
  case (Cons c cs)
  show ?case
  proof (cases "handle_clarification px inp c pr w")
    case None
    with Cons.prems show ?thesis by simp
  next
    case (Some a)
    obtain r w2 where a: "a = (r, w2)" by (cases a)
    show ?thesis
    proof (cases r)
      case (Inl e')
      with Some a Cons.prems have h: "handle_clarification px inp c pr w = Some (Inl e, w1)"
        by simp
      have "calls w1 = calls w @ []" using handle_clarification_raise[OF h] by simp
      moreover have "length ([] :: call list) < length (c # cs)" by simp
      moreover have "list_all2 answers (take (length ([] :: call list)) (c # cs)) []" by simp
      moreover have "(e = EOFError \<and> inp (stdin_pos w1) = None) \<or> (\<exists>cls. e = not_serialisable cls)"
        using handle_clarification_raise[OF h] by simp
      ultimately show ?thesis by blast
    next
      case (Inr pr2)
      with Some a have h: "handle_clarification px inp c pr w = Some (Inr pr2, w2)" by simp
      with Cons.prems have r: "for_each_clarification px inp cs pr2 w2 = Some (Inl e, w1)"
        by simp
      from handle_clarification_call[OF h] obtain k where
        k: "calls w2 = calls w @ [k]" "answers c k" by blast
      from Cons.IH[OF r] obtain seg where
        seg: "calls w1 = calls w2 @ seg" "length seg < length cs"
             "list_all2 answers (take (length seg) cs) seg"
             "(e = EOFError \<and> inp (stdin_pos w1) = None) \<or> (\<exists>cls. e = not_serialisable cls)"
        by blast
      have "calls w1 = calls w @ (k # seg)" using k seg by simp
      moreover have "length (k # seg) < length (c # cs)" using seg by simp
      moreover have "list_all2 answers (take (length (k # seg)) (c # cs)) (k # seg)"
        using k seg by simp
      ultimately show ?thesis using seg(4) by blast
    qed
  qed
qed

lemma handle_clarifications_shape_aux:
  assumes run: "handle_clarifications px inp plan_run w = Some y"
  shows "\<forall>r w'. y = (r, w') \<longrightarrow>
           (\<exists>tr. calls w' = calls w @ tr \<and> run_shape px plan_run tr r)
         \<and> (\<forall>e. r = Inl e \<longrightarrow>
               (e = EOFError \<and> inp (stdin_pos w') = None) \<or> (\<exists>cls. e = not_serialisable cls))"
proof (rule handle_clarifications.raw_induct[where P="\<lambda>px inp plan_run w y.
          \<forall>r w'. y = (r, w') \<longrightarrow>
           (\<exists>tr. calls w' = calls w @ tr \<and> run_shape px plan_run tr r)
         \<and> (\<forall>e. r = Inl e \<longrightarrow>
               (e = EOFError \<and> inp (stdin_pos w') = None) \<or> (\<exists>cls. e = not_serialisable cls))", OF _ run])
  fix f and px :: "'a portia" and inp plan_run w y
  assume IH: "\<And>a b c d y. f a b c d = Some y \<Longrightarrow>
          \<forall>r w'. y = (r, w') \<longrightarrow>
           (\<exists>tr. calls w' = calls d @ tr \<and> run_shape a c tr r)
         \<and> (\<forall>e. r = Inl e \<longrightarrow>
               (e = EOFError \<and> b (stdin_pos w') = None) \<or> (\<exists>cls. e = not_serialisable cls))"
    and body: "(if state px plan_run \<noteq> NEED_CLARIFICATION then Some (Inr plan_run, w)
      else
        (case for_each_clarification px inp (get_outstanding_clarifications px plan_run) plan_run w of
           None \<Rightarrow> None
         | Some (Inl e, w1) \<Rightarrow> Some (Inl e, w1)
         | Some (Inr pr1, w1) \<Rightarrow>
             if state px pr1 = NEED_CLARIFICATION
             then f px inp (resume px pr1) (logged Resume w1)
             else f px inp pr1 w1)) = Some y"
  show "\<forall>r w'. y = (r, w') \<longrightarrow>
           (\<exists>tr. calls w' = calls w @ tr \<and> run_shape px plan_run tr r)
         \<and> (\<forall>e. r = Inl e \<longrightarrow>
               (e = EOFError \<and> inp (stdin_pos w') = None) \<or> (\<exists>cls. e = not_serialisable cls))"
  proof (intro allI impI)
    fix r w' assume y: "y = (r, w')"
    show "(\<exists>tr. calls w' = calls w @ tr \<and> run_shape px plan_run tr r)
         \<and> (\<forall>e. r = Inl e \<longrightarrow>
               (e = EOFError \<and> inp (stdin_pos w') = None) \<or> (\<exists>cls. e = not_serialisable cls))"
    proof (cases "state px plan_run = NEED_CLARIFICATION")
      case False
      with body y have "r = Inr plan_run" "w' = w" by auto
      with False show ?thesis by (auto intro: complete_passes.finished)
    next
      case True
      let ?cs = "get_outstanding_clarifications px plan_run"
      from True body y obtain a where
        fe: "for_each_clarification px inp ?cs plan_run w = Some a"
        by (auto split: option.splits)
      obtain r1 w1 where a: "a = (r1, w1)" by (cases a)
      show ?thesis
      proof (cases r1)
        case (Inl e)
        with True body y fe a have out: "r = Inl e" "w' = w1" by auto
        from fe a Inl have "for_each_clarification px inp ?cs plan_run w = Some (Inl e, w1)"
          by simp
        from for_each_clarification_raise[OF this] obtain seg where
          seg: "calls w1 = calls w @ seg" "length seg < length ?cs"
               "list_all2 answers (take (length seg) ?cs) seg"
               "(e = EOFError \<and> inp (stdin_pos w1) = None) \<or> (\<exists>cls. e = not_serialisable cls)"
          by blast
        have "interrupted_passes px plan_run seg"
          using True seg(2,3) by (rule interrupted_passes.pass_interrupted)
        with out seg(1,4) show ?thesis by auto
      next
        case (Inr pr1)
        with True body y fe a have
          rest: "(if state px pr1 = NEED_CLARIFICATION
                  then f px inp (resume px pr1) (logged Resume w1)
                  else f px inp pr1 w1) = Some (r, w')"
          by auto
        from fe a Inr have "for_each_clarification px inp ?cs plan_run w = Some (Inr pr1, w1)"
          by simp
        from for_each_clarification_calls[OF this] obtain seg where
          seg: "calls w1 = calls w @ seg" "list_all2 answers ?cs seg"
               "pr1 = replay px seg plan_run" by blast
        show ?thesis
        proof (cases "state px pr1 = NEED_CLARIFICATION")
          case need: True
          with rest have "f px inp (resume px pr1) (logged Resume w1) = Some (r, w')" by simp
          from IH[OF this] obtain tr where
            tr: "calls w' = calls (logged Resume w1) @ tr"
                "run_shape px (resume px pr1) tr r"
            and kinds: "\<forall>e. r = Inl e \<longrightarrow>
               (e = EOFError \<and> inp (stdin_pos w') = None) \<or> (\<exists>cls. e = not_serialisable cls)"
            by blast
          have c: "calls w' = calls w @ (seg @ Resume # tr)"
            using tr(1) seg(1) by (simp add: calls_logged)
          have "run_shape px plan_run (seg @ Resume # tr) r"
          proof (cases r)
            case (Inl e)
            with tr(2) have "interrupted_passes px (resume px (replay px seg plan_run)) tr"
              using seg(3) by simp
            with True seg(2) need seg(3) have "interrupted_passes px plan_run (seg @ Resume # tr)"
              by (auto intro: interrupted_passes.pass_resumed_first)
            with Inl show ?thesis by simp
          next
            case (Inr pr')
            with tr(2) have e: "state px pr' \<noteq> NEED_CLARIFICATION"
              and p: "complete_passes px (resume px (replay px seg plan_run)) tr pr'"
              using seg(3) by simp_all
            from True seg(2) need seg(3) p have "complete_passes px plan_run (seg @ Resume # tr) pr'"
              by (auto intro: complete_passes.pass_then_resume)
            with Inr e show ?thesis by simp
          qed
          with c kinds show ?thesis by blast
        next
          case settled: False
          with rest have "f px inp pr1 w1 = Some (r, w')" by simp
          from IH[OF this] obtain tr where
            tr: "calls w' = calls w1 @ tr" "run_shape px pr1 tr r" by blast
          have "r = Inr pr1 \<and> tr = []"
          proof (cases r)
            case (Inl e)
            with tr(2) have "interrupted_passes px pr1 tr" by simp
            with settled show ?thesis by (auto elim: interrupted_passes.cases)
          next
            case (Inr pr')
            with tr(2) have "complete_passes px pr1 tr pr'" by simp
            with settled Inr show ?thesis by (auto elim: complete_passes.cases)
          qed
          moreover have "complete_passes px plan_run seg pr1"
            using True seg settled by (auto intro: complete_passes.pass_settles)
          ultimately show ?thesis using tr(1) seg(1) settled by auto
        qed
      qed
    qed
  qed
qed

lemma handle_clarifications_shape:
  assumes "handle_clarifications px inp plan_run w = Some (r, w')"
  shows "\<exists>tr. calls w' = calls w @ tr \<and> run_shape px plan_run tr r"
  using handle_clarifications_shape_aux[OF assms] by simp

lemma handle_clarifications_raises:
  assumes "handle_clarifications px inp plan_run w = Some (Inl e, w')"
  shows "(e = EOFError \<and> inp (stdin_pos w') = None) \<or> (\<exists>cls. e = not_serialisable cls)"
  using handle_clarifications_shape_aux[OF assms] by simp

section \<open>Multiple choice\<close>

lemma lower_strip_n: "py_strip (py_lower ''n'') = ''n''" by code_simp
lemma py_int_5: "py_int ''5'' = Some 5" by code_simp
lemma py_int_x: "py_int ''x'' = None" by code_simp
lemma py_int_2: "py_int ''2'' = Some 2" by code_simp
lemma py_int_1: "py_int ''1'' = Some 1" by code_simp

lemma multiple_choice_loop_skips:
  assumes "\<And>i. i < n \<Longrightarrow> \<exists>line. inp (stdin_pos w + i) = Some line \<and> \<not> valid_choice opts line"
    and "inp (stdin_pos w + n) = Some line" and "py_int line = Some k"
    and "1 \<le> k" and "k \<le> int (length opts)"
  shows "multiple_choice_loop px inp c opts pr w =
           Some (Inr (resolve_clarification px c (opts ! nat (k - 1)) pr),
                 logged (ResolveClarification c (opts ! nat (k - 1)))
                   (w\<lparr>stdin_pos := stdin_pos w + n + 1\<rparr>))"
  using assms
proof (induction n arbitrary: w)
  case 0
  then show ?case by (simp add: multiple_choice_loop_accept)
next
  case (Suc n)
  from Suc.prems(1)[of 0] obtain bad where
    bad: "inp (stdin_pos w) = Some bad" "\<not> valid_choice opts bad" by auto
  let ?w = "w\<lparr>stdin_pos := Suc (stdin_pos w)\<rparr>"
  have step: "multiple_choice_loop px inp c opts pr w = multiple_choice_loop px inp c opts pr ?w"
    using bad by (rule multiple_choice_loop_reject)
  have "\<And>i. i < n \<Longrightarrow> \<exists>line. inp (stdin_pos ?w + i) = Some line \<and> \<not> valid_choice opts line"
    using Suc.prems(1)[of "Suc _"] by simp
  moreover have "inp (stdin_pos ?w + n) = Some line" using Suc.prems(2) by simp
  ultimately have "multiple_choice_loop px inp c opts pr ?w =
           Some (Inr (resolve_clarification px c (opts ! nat (k - 1)) pr),
                 logged (ResolveClarification c (opts ! nat (k - 1)))
                   (?w\<lparr>stdin_pos := stdin_pos ?w + n + 1\<rparr>))"
    using Suc.prems(3-5) by (rule Suc.IH)
  with step show ?case by simp
qed

text \<open>
  Claim C3. For a multiple-choice clarification with a non-empty list of options the
  loop reads a 1-based index: every line that \<^verbatim>\<open>int\<close> rejects or whose number is out of
  range is passed over and the next line is read, and the first valid line \<open>k\<close>
  resolves the clarification with the option at position \<open>k\<close>, a member of the list,
  not with the index. With options A, B, C and the lines 5, x, 2 the first two lines
  are rejected and the resolution is B.
\<close>

theorem multiple_choice_resolves_with_selected_option:
  assumes "opts \<noteq> []"
    and "\<forall>i<n. \<exists>line. inp (stdin_pos w + i) = Some line \<and> \<not> valid_choice opts line"
    and "inp (stdin_pos w + n) = Some line" and "py_int line = Some k"
    and "1 \<le> k" and "k \<le> int (length opts)"
  shows "handle_clarification px inp (MultipleChoiceClarification s g opts) pr w =
           Some (Inr (resolve_clarification px (MultipleChoiceClarification s g opts)
                        (opts ! nat (k - 1)) pr),
                 logged (ResolveClarification (MultipleChoiceClarification s g opts)
                           (opts ! nat (k - 1)))
                   (w\<lparr>stdin_pos := stdin_pos w + n + 1\<rparr>))
       \<and> opts ! nat (k - 1) \<in> set opts"
proof -
  have "multiple_choice_loop px inp (MultipleChoiceClarification s g opts) opts pr w =
           Some (Inr (resolve_clarification px (MultipleChoiceClarification s g opts)
                        (opts ! nat (k - 1)) pr),
                 logged (ResolveClarification (MultipleChoiceClarification s g opts)
                           (opts ! nat (k - 1)))
                   (w\<lparr>stdin_pos := stdin_pos w + n + 1\<rparr>))"
    using assms(2-6) by (intro multiple_choice_loop_skips) auto
  moreover have "nat (k - 1) < length opts" using assms(5,6) by auto
  ultimately show ?thesis using assms(1) by simp
qed

lemma not_valid_5: "\<not> valid_choice [PyStr ''A'', PyStr ''B'', PyStr ''C''] ''5''"
  by (simp add: valid_choice_def py_int_5)

lemma not_valid_x: "\<not> valid_choice [PyStr ''A'', PyStr ''B'', PyStr ''C''] ''x''"
  by (simp add: valid_choice_def py_int_x)

theorem multiple_choice_resolves_with_selected_option_witness:
  "handle_clarification (scripted no_plans) (console_of [''5'', ''x'', ''2'']) pick_team
      one_confirmation world0 =
     Some (Inr one_confirmation,
           \<lparr>stdin_pos = 3, calls = [ResolveClarification pick_team (PyStr ''B'')]\<rparr>)"
proof -
  have rejected: "\<forall>i<2. \<exists>line. console_of [''5'', ''x'', ''2''] (stdin_pos world0 + i) = Some line
         \<and> \<not> valid_choice [PyStr ''A'', PyStr ''B'', PyStr ''C''] line"
    using not_valid_5 not_valid_x by (simp add: console_of_def world0_def less_Suc_eq numeral_2_eq_2)
  have third: "console_of [''5'', ''x'', ''2''] (stdin_pos world0 + 2) = Some ''2''"
    by (simp add: console_of_def world0_def)
  show ?thesis
    using multiple_choice_resolves_with_selected_option[where opts = "[PyStr ''A'', PyStr ''B'', PyStr ''C'']"
        and n = 2 and inp = "console_of [''5'', ''x'', ''2'']" and w = world0 and line = "''2''" and k = 2
        and px = "scripted no_plans" and s = 1 and g = "''Which team?''" and pr = one_confirmation,
        OF _ rejected third py_int_2]
    by (simp add: pick_team_def scripted_def logged_def world0_def)
qed

section \<open>Termination of the loop\<close>

lemma multiple_choice_loop_terminates:
  assumes "settles inp opts (stdin_pos w + n)"
  shows "\<exists>r w1. multiple_choice_loop px inp c opts pr w = Some (r, w1)"
  using assms
proof (induction n arbitrary: w)
  case 0
  show ?case
  proof (cases "inp (stdin_pos w)")
    case None
    then show ?thesis by (auto simp: multiple_choice_loop_eof)
  next
    case (Some line)
    with 0 have "valid_choice opts line" by (simp add: settles_def)
    then obtain k where "py_int line = Some k" "1 \<le> k" "k \<le> int (length opts)"
      by (auto simp: valid_choice_def split: option.splits)
    with Some show ?thesis by (simp add: multiple_choice_loop_accept)
  qed
next
  case (Suc n)
  show ?case
  proof (cases "inp (stdin_pos w)")
    case None
    then show ?thesis by (auto simp: multiple_choice_loop_eof)
  next
    case (Some line)
    show ?thesis
    proof (cases "valid_choice opts line")
      case True
      then obtain k where "py_int line = Some k" "1 \<le> k" "k \<le> int (length opts)"
        by (auto simp: valid_choice_def split: option.splits)
      with Some show ?thesis by (simp add: multiple_choice_loop_accept)
    next
      case False
      let ?w = "w\<lparr>stdin_pos := Suc (stdin_pos w)\<rparr>"
      have step: "multiple_choice_loop px inp c opts pr w = multiple_choice_loop px inp c opts pr ?w"
        using Some False by (rule multiple_choice_loop_reject)
      have "settles inp opts (stdin_pos ?w + n)" using Suc.prems by simp
      from Suc.IH[OF this] step show ?thesis by simp
    qed
  qed
qed

lemma resolve_with_input_terminates:
  "\<exists>r w1. resolve_with_input px inp c pr w = Some (r, w1)"
proof (cases "inp (stdin_pos w)")
  case None
  then show ?thesis by (auto simp: resolve_with_input_def py_input_None)
next
  case (Some line)
  then show ?thesis by (simp add: resolve_with_input_Some)
qed

lemma handle_clarification_terminates:
  assumes "eventually_answered inp c"
  shows "\<exists>r w1. handle_clarification px inp c pr w = Some (r, w1)"
proof (cases c)
  case (ActionClarification s g u)
  show ?thesis
  proof (cases "inp (stdin_pos w)")
    case None
    with ActionClarification show ?thesis by (auto simp: py_input_None)
  next
    case (Some line)
    with ActionClarification show ?thesis by (simp add: py_input_Some)
  qed
next
  case (InputClarification s g a)
  then show ?thesis using resolve_with_input_terminates[of px inp c pr w] by simp
next
  case (MultipleChoiceClarification s g opts)
  show ?thesis
  proof (cases "opts = []")
    case True
    with MultipleChoiceClarification show ?thesis
      using resolve_with_input_terminates[of px inp c pr w] by simp
  next
    case False
    from assms MultipleChoiceClarification False obtain n where "settles inp opts (stdin_pos w + n)"
      by auto
    from multiple_choice_loop_terminates[OF this, of px c pr] False MultipleChoiceClarification
    show ?thesis by simp
  qed
next
  case (ValueConfirmationClarification s g v)
  show ?thesis
  proof (cases "inp (stdin_pos w)")
    case None
    with ValueConfirmationClarification show ?thesis by (auto simp: py_input_None)
  next
    case (Some line)
    with ValueConfirmationClarification show ?thesis by (simp add: py_input_Some Let_def)
  qed
next
  case (CustomClarification s g d)
  then show ?thesis using resolve_with_input_terminates[of px inp c pr w]
    by (cases "show_custom_data d") auto
next
  case (UnknownClarification s g)
  then show ?thesis using resolve_with_input_terminates[of px inp c pr w] by simp
qed

lemma answers_rank:
  assumes "answers c k"
    and "\<And>c v pr. rank (resolve_clarification px c v pr) \<le> rank pr"
    and "\<And>pr. rank (wait_for_ready px pr) \<le> rank pr"
  shows "rank (apply_call px pr k) \<le> (rank pr :: nat)"
proof (cases k)
  case WaitForReady
  then show ?thesis using assms(3) by simp
next
  case (ResolveClarification c' v)
  then show ?thesis using assms(2) by simp
next
  case Resume
  with assms(1) show ?thesis by (cases c) simp_all
next
  case (RunPlan p)
  with assms(1) show ?thesis by (cases c) simp_all
qed

lemma for_each_clarification_terminates:
  assumes "\<And>c. c \<in> set cs \<Longrightarrow> eventually_answered inp c"
    and "\<And>c v pr. rank (resolve_clarification px c v pr) \<le> rank pr"
    and "\<And>pr. rank (wait_for_ready px pr) \<le> rank pr"
  shows "\<exists>r w1. for_each_clarification px inp cs pr w = Some (r, w1)
           \<and> (\<forall>pr1. r = Inr pr1 \<longrightarrow> rank pr1 \<le> (rank pr :: nat))"
  using assms(1)
proof (induction cs arbitrary: pr w)
  case Nil
  show ?case by simp
next
  case (Cons c cs)
  have "eventually_answered inp c" using Cons.prems by simp
  from handle_clarification_terminates[OF this, of px pr w] obtain r w1 where
    h: "handle_clarification px inp c pr w = Some (r, w1)" by blast
  show ?case
  proof (cases r)
    case (Inl e)
    with h show ?thesis by auto
  next
    case (Inr pr1)
    from handle_clarification_call[OF h[unfolded Inr]] obtain k where
      k: "answers c k" "pr1 = apply_call px pr k" by blast
    have r1: "rank pr1 \<le> rank pr" using answers_rank[OF k(1) assms(2,3)] k(2) by simp
    have "\<And>c. c \<in> set cs \<Longrightarrow> eventually_answered inp c" using Cons.prems by simp
    from Cons.IH[OF this, of pr1 w1] obtain r' w2 where
      rest: "for_each_clarification px inp cs pr1 w1 = Some (r', w2)"
            "\<forall>pr2. r' = Inr pr2 \<longrightarrow> rank pr2 \<le> rank pr1" by blast
    have "for_each_clarification px inp (c # cs) pr w = Some (r', w2)"
      using h Inr rest(1) by simp
    moreover have "\<forall>pr2. r' = Inr pr2 \<longrightarrow> rank pr2 \<le> rank pr"
      using rest(2) r1 by auto
    ultimately show ?thesis by blast
  qed
qed

lemma handle_clarifications_returns:
  assumes answered: "\<And>pr c. c \<in> set (get_outstanding_clarifications px pr) \<Longrightarrow> eventually_answered inp c"
    and resumes: "\<And>pr. state px pr = NEED_CLARIFICATION \<Longrightarrow> rank (resume px pr) < (rank pr :: nat)"
    and resolves: "\<And>c v pr. rank (resolve_clarification px c v pr) \<le> rank pr"
    and waits: "\<And>pr. rank (wait_for_ready px pr) \<le> rank pr"
  shows "\<exists>r w'. handle_clarifications px inp plan_run w = Some (r, w')"
proof (induction "rank plan_run" arbitrary: plan_run w rule: less_induct)
  case less
  show ?case
  proof (cases "state px plan_run = NEED_CLARIFICATION")
    case False
    then show ?thesis by (simp add: handle_clarifications_done)
  next
    case True
    have here: "\<And>c. c \<in> set (get_outstanding_clarifications px plan_run) \<Longrightarrow> eventually_answered inp c"
      by (rule answered)
    from for_each_clarification_terminates[of "get_outstanding_clarifications px plan_run" inp rank px plan_run w,
           OF here resolves waits]
    obtain r w1 where
      f: "for_each_clarification px inp (get_outstanding_clarifications px plan_run) plan_run w = Some (r, w1)"
         "\<forall>pr1. r = Inr pr1 \<longrightarrow> rank pr1 \<le> rank plan_run" by blast
    show ?thesis
    proof (cases r)
      case (Inl e)
      have "handle_clarifications px inp plan_run w = Some (Inl e, w1)"
        using True f(1) Inl by (simp add: handle_clarifications_raise)
      then show ?thesis by blast
    next
      case (Inr pr1)
      have unfold: "handle_clarifications px inp plan_run w =
          (if state px pr1 = NEED_CLARIFICATION
           then handle_clarifications px inp (resume px pr1) (logged Resume w1)
           else handle_clarifications px inp pr1 w1)"
        using True f(1) Inr by (simp add: handle_clarifications_pass)
      show ?thesis
      proof (cases "state px pr1 = NEED_CLARIFICATION")
        case need: True
        have "rank (resume px pr1) < rank plan_run"
          using resumes[OF need] f(2) Inr by auto
        from less[OF this, of "logged Resume w1"] unfold need show ?thesis by simp
      next
        case False
        with unfold show ?thesis by (simp add: handle_clarifications_done)
      qed
    qed
  qed
qed



lemma endless_one_settles: "opts \<noteq> [] \<Longrightarrow> settles (endless ''1'') opts n"
  by (cases opts) (simp_all add: settles_def endless_def valid_choice_def py_int_1)

lemma endless_one_answers: "eventually_answered (endless ''1'') c"
  by (cases c) (auto simp: endless_one_settles)

section \<open>A run of two passes\<close>








text \<open>
  Claim C4. Suppose that, for every clarification the executor can raise, the answers
  on the console are always eventually valid (from every position on, a valid answer or
  the end of input is reached), and that the executor leaves \<^verbatim>\<open>NEED_CLARIFICATION\<close>
  after finitely many resumes: some rank of the plan run drops with every resume made
  in that state and never grows when a clarification is resolved or waited for. Then
  the resolution loop ends. If it returns, the plan run it returns is not in
  \<^verbatim>\<open>NEED_CLARIFICATION\<close>; if it raises, the exception is the \<^verbatim>\<open>EOFError\<close> of a console
  that has run out or the \<^verbatim>\<open>TypeError\<close> of \<^verbatim>\<open>json.dumps\<close> on the data of a custom
  clarification, the two exceptions that the loop's own statements can raise.
\<close>

theorem resolution_loop_terminates:
  assumes answered: "\<And>pr c. c \<in> set (get_outstanding_clarifications px pr) \<Longrightarrow> eventually_answered inp c"
    and resumes: "\<And>pr. state px pr = NEED_CLARIFICATION \<Longrightarrow> rank (resume px pr) < (rank pr :: nat)"
    and resolves: "\<And>c v pr. rank (resolve_clarification px c v pr) \<le> rank pr"
    and waits: "\<And>pr. rank (wait_for_ready px pr) \<le> rank pr"
  shows "\<exists>r w'. handle_clarifications px inp plan_run w = Some (r, w')
           \<and> (\<forall>pr'. r = Inr pr' \<longrightarrow> state px pr' \<noteq> NEED_CLARIFICATION)
           \<and> (\<forall>e. r = Inl e \<longrightarrow>
                 (e = EOFError \<and> inp (stdin_pos w') = None) \<or> (\<exists>cls. e = not_serialisable cls))"
proof -
  have "\<exists>r w'. handle_clarifications px inp plan_run w = Some (r, w')"
    using answered resumes resolves waits
    by (rule handle_clarifications_returns[where rank = rank])
  then obtain r w' where run: "handle_clarifications px inp plan_run w = Some (r, w')" by blast
  have "\<forall>pr'. r = Inr pr' \<longrightarrow> state px pr' \<noteq> NEED_CLARIFICATION"
    using handle_clarifications_shape[OF run] by auto
  moreover have "\<forall>e. r = Inl e \<longrightarrow>
      (e = EOFError \<and> inp (stdin_pos w') = None) \<or> (\<exists>cls. e = not_serialisable cls)"
    using handle_clarifications_raises[of px inp plan_run w _ w'] run by auto
  ultimately show ?thesis using run by blast
qed

lemma endless_never_ends: "endless line m \<noteq> None"
  by (simp add: endless_def)

theorem resolution_loop_terminates_witness:
  "\<exists>r w'. handle_clarifications (scripted no_plans) (endless ''1'') two_batches world0 = Some (r, w')
     \<and> (\<forall>pr'. r = Inr pr' \<longrightarrow> state (scripted no_plans) pr' \<noteq> NEED_CLARIFICATION)
     \<and> (\<forall>e. r = Inl e \<longrightarrow> (\<exists>cls. e = not_serialisable cls))"
proof -
  have "\<exists>r w'. handle_clarifications (scripted no_plans) (endless ''1'') two_batches world0 = Some (r, w')
     \<and> (\<forall>pr'. r = Inr pr' \<longrightarrow> state (scripted no_plans) pr' \<noteq> NEED_CLARIFICATION)
     \<and> (\<forall>e. r = Inl e \<longrightarrow>
           (e = EOFError \<and> endless ''1'' (stdin_pos w') = None) \<or> (\<exists>cls. e = not_serialisable cls))"
    by (rule resolution_loop_terminates[where rank = "\<lambda>pr. length (batches pr)"])
       (simp_all add: endless_one_answers scripted_rank scripted_resolve scripted_wait)
  then show ?thesis by (simp add: endless_never_ends)
qed

section \<open>Value confirmation\<close>

lemma value_confirmation_step:
  assumes "inp (stdin_pos w) = Some answer"
  shows "handle_clarification px inp (ValueConfirmationClarification s g v) pr w =
     Some (Inr (resolve_clarification px (ValueConfirmationClarification s g v)
                  (PyBool (py_strip (py_lower answer) \<in> set [''y'', ''yes''])) pr),
           logged (ResolveClarification (ValueConfirmationClarification s g v)
                     (PyBool (py_strip (py_lower answer) \<in> set [''y'', ''yes''])))
             (w\<lparr>stdin_pos := Suc (stdin_pos w)\<rparr>))"
  using assms by (simp add: py_input_Some Let_def)

text \<open>
  Claim C1, at the answer \<^verbatim>\<open>n\<close>. The resolution loop resolves the value confirmation
  with the boolean \<^verbatim>\<open>False\<close> and then resumes the plan run; nothing is reported as an
  error. The callback handler of the same file, on the same clarification and answer,
  calls \<^verbatim>\<open>on_error\<close> with the reason \<^verbatim>\<open>User rejected the value\<close>.
\<close>

theorem rejected_confirmation_is_resolved_with_false:
  "handle_clarifications (scripted no_plans) (console_of [''n'']) one_confirmation world0 =
     Some (Inr \<lparr>batches = [], succeeds = True, raw_output = PyNone\<rparr>,
           \<lparr>stdin_pos = 1, calls = [ResolveClarification confirm_rollout (PyBool False), Resume]\<rparr>)
   \<and> handle_value_confirmation_clarification (console_of [''n'']) confirm_rollout world0 =
     (Inr (OnError confirm_rollout (PyStr ''User rejected the value'')),
      \<lparr>stdin_pos = 1, calls = []\<rparr>)"
proof -
  have one: "for_each_clarification (scripted no_plans) (console_of [''n''])
        (get_outstanding_clarifications (scripted no_plans) one_confirmation) one_confirmation world0 =
      Some (Inr one_confirmation,
            \<lparr>stdin_pos = 1, calls = [ResolveClarification confirm_rollout (PyBool False)]\<rparr>)"
    by (simp add: scripted_outstanding one_confirmation_def confirm_rollout_def
          py_input_def console_of_def world0_def lower_strip_n scripted_resolve logged_def)
  have need: "state (scripted no_plans) one_confirmation = NEED_CLARIFICATION"
    by (simp add: scripted_state one_confirmation_def)
  have "handle_clarifications (scripted no_plans) (console_of [''n'']) one_confirmation world0 =
      handle_clarifications (scripted no_plans) (console_of [''n''])
        (resume (scripted no_plans) one_confirmation)
        (logged Resume \<lparr>stdin_pos = 1, calls = [ResolveClarification confirm_rollout (PyBool False)]\<rparr>)"
    using handle_clarifications_pass[OF need one] need by simp
  also have "\<dots> = Some (Inr \<lparr>batches = [], succeeds = True, raw_output = PyNone\<rparr>,
           \<lparr>stdin_pos = 1, calls = [ResolveClarification confirm_rollout (PyBool False), Resume]\<rparr>)"
    by (simp add: handle_clarifications_done scripted_state scripted_resume one_confirmation_def
          logged_def)
  finally have loop: "handle_clarifications (scripted no_plans) (console_of [''n'']) one_confirmation world0 =
     Some (Inr \<lparr>batches = [], succeeds = True, raw_output = PyNone\<rparr>,
           \<lparr>stdin_pos = 1, calls = [ResolveClarification confirm_rollout (PyBool False), Resume]\<rparr>)" .
  have handler: "handle_value_confirmation_clarification (console_of [''n'']) confirm_rollout world0 =
     (Inr (OnError confirm_rollout (PyStr ''User rejected the value'')),
      \<lparr>stdin_pos = 1, calls = []\<rparr>)"
    by (simp add: handle_value_confirmation_clarification_def py_input_def console_of_def
          world0_def lower_strip_n)
  from loop handler show ?thesis by simp
qed

section \<open>Action clarifications\<close>

text \<open>
  Claim C7, as the code has it. In the resolution loop an action clarification is
  answered by one blocking read of the console followed by \<^verbatim>\<open>wait_for_ready\<close>; no
  resolution call is made for it and no value is passed. The callback handler blocks on
  the same read and then reports through \<^verbatim>\<open>on_resolution\<close>, with the constant
  \<^verbatim>\<open>completed\<close> as its value.
\<close>

theorem action_waits_in_loop_and_resolves_in_handler:
  assumes "inp (stdin_pos w) = Some ready"
  shows "handle_clarification px inp (ActionClarification s g u) pr w =
           Some (Inr (wait_for_ready px pr),
                 logged WaitForReady (w\<lparr>stdin_pos := Suc (stdin_pos w)\<rparr>))
       \<and> handle_action_clarification inp (ActionClarification s g u) w =
           (Inr (OnResolution (ActionClarification s g u) (PyStr ''completed'')),
            w\<lparr>stdin_pos := Suc (stdin_pos w)\<rparr>)"
  using assms by (simp add: py_input_Some handle_action_clarification_def)

theorem action_waits_in_loop_and_resolves_in_handler_witness:
  "handle_clarification (scripted no_plans) (console_of [[]]) authorise_linear one_confirmation world0 =
     Some (Inr one_confirmation, \<lparr>stdin_pos = 1, calls = [WaitForReady]\<rparr>)
   \<and> handle_action_clarification (console_of [[]]) authorise_linear world0 =
     (Inr (OnResolution authorise_linear (PyStr ''completed'')), \<lparr>stdin_pos = 1, calls = []\<rparr>)"
  using action_waits_in_loop_and_resolves_in_handler[where inp = "console_of [[]]" and w = world0
      and ready = "[]" and px = "scripted no_plans" and s = 0 and g = "''Authorise access to Linear''"
      and u = "''https://linear.app/oauth''" and pr = one_confirmation]
  by (simp add: authorise_linear_def console_of_def world0_def scripted_wait logged_def)

text \<open>
  The callback handler does pass a value as the resolution of an action clarification.
\<close>

theorem action_handler_resolves_with_a_value:
  "fst (handle_action_clarification (console_of [[]]) authorise_linear world0) =
     Inr (OnResolution authorise_linear (PyStr ''completed''))"
  by (simp add: handle_action_clarification_def py_input_def console_of_def world0_def)

section \<open>Unknown kinds\<close>

text \<open>
  Claim C8. A clarification of none of the five kinds is handled as an input
  clarification is: one line is read and the clarification is resolved with that text,
  and the loop goes on with the clarifications that remain.
\<close>

theorem unknown_kind_falls_back_to_input:
  assumes "inp (stdin_pos w) = Some line"
  shows "handle_clarification px inp (UnknownClarification s g) pr w =
           Some (Inr (resolve_clarification px (UnknownClarification s g) (PyStr line) pr),
                 logged (ResolveClarification (UnknownClarification s g) (PyStr line))
                   (w\<lparr>stdin_pos := Suc (stdin_pos w)\<rparr>))
       \<and> handle_clarification px inp (InputClarification s g a) pr w =
           Some (Inr (resolve_clarification px (InputClarification s g a) (PyStr line) pr),
                 logged (ResolveClarification (InputClarification s g a) (PyStr line))
                   (w\<lparr>stdin_pos := Suc (stdin_pos w)\<rparr>))
       \<and> for_each_clarification px inp (UnknownClarification s g # cs) pr w =
           for_each_clarification px inp cs
             (resolve_clarification px (UnknownClarification s g) (PyStr line) pr)
             (logged (ResolveClarification (UnknownClarification s g) (PyStr line))
                (w\<lparr>stdin_pos := Suc (stdin_pos w)\<rparr>))"
  using assms by (simp add: resolve_with_input_Some)

theorem unknown_kind_falls_back_to_input_witness:
  "handle_clarification (scripted no_plans) (console_of [''anything'']) odd_kind one_confirmation world0 =
     Some (Inr one_confirmation,
           \<lparr>stdin_pos = 1, calls = [ResolveClarification odd_kind (PyStr ''anything'')]\<rparr>)
   \<and> for_each_clarification (scripted no_plans) (console_of [''anything'']) [odd_kind] one_confirmation world0 =
     Some (Inr one_confirmation,
           \<lparr>stdin_pos = 1, calls = [ResolveClarification odd_kind (PyStr ''anything'')]\<rparr>)"
  using unknown_kind_falls_back_to_input[where inp = "console_of [''anything'']" and w = world0
          and line = "''anything''" and px = "scripted no_plans" and s = 2
          and g = "''Something new''" and pr = one_confirmation and cs = "[]"]
  by (simp add: odd_kind_def scripted_def logged_def world0_def console_of_def)

section \<open>The credential check\<close>

text \<open>
  Claim C9. When \<^verbatim>\<open>PORTIA_API_KEY\<close> is absent from the environment, each of the three
  variants prints the explanatory message and nothing else, exits with status 1, and
  leaves the environment as it found it.
\<close>

theorem missing_credential_exits_at_once:
  assumes "env ''PORTIA_API_KEY'' = None"
  shows "module_startup v env = (missing_key_message, Exited 1, env)
       \<and> (1 :: int) \<noteq> 0 \<and> missing_key_message \<noteq> []"
  using assms by (simp add: module_startup_def missing_key_message_def)

theorem missing_credential_exits_at_once_witness:
  "module_startup Server no_environment = (missing_key_message, Exited 1, no_environment)
   \<and> module_startup WorkingBackend no_environment = (missing_key_message, Exited 1, no_environment)
   \<and> module_startup Initial no_environment = (missing_key_message, Exited 1, no_environment)"
  using missing_credential_exits_at_once[where env = no_environment and v = Server]
        missing_credential_exits_at_once[where env = no_environment and v = WorkingBackend]
        missing_credential_exits_at_once[where env = no_environment and v = Initial]
  by (simp add: no_environment_def)

section \<open>Starting a research session\<close>

text \<open>
  Claim C10. \<^verbatim>\<open>POST /research\<close> answers with status \<^verbatim>\<open>started\<close> and progress 0, a
  constant of the handler, while the session it has just stored under the returned id
  has status \<^verbatim>\<open>initializing\<close>; a \<^verbatim>\<open>GET /research/{session_id}\<close> on the session map
  as the response leaves it finds the session and reports \<^verbatim>\<open>initializing\<close>, which
  differs from what the POST returned.
\<close>

theorem post_reports_started_while_session_is_initializing:
  "(case start_research stamp req research_sessions of
      (response, sessions', task) \<Rightarrow>
        status response = ''started'' \<and> progress response = 0
        \<and> session_id response = new_session_id stamp req
        \<and> sessions' (session_id response) =
            Some \<lparr>status = ''initializing'', progress = 0, result = None, error = None\<rparr>
        \<and> get_research_status sessions' (session_id response) =
            Inr \<lparr>status = ''initializing'', progress = 0, result = None, error = None,
                 session_id = session_id response\<rparr>
        \<and> status response \<noteq> ''initializing'')"
  by (simp add: start_research_def get_research_status_def Let_def)

section \<open>Decoding the comment listing\<close>

lemma envelope_is_not_comments: "bo_comments_json \<noteq> bo_envelope_json"
  by (simp add: bo_comments_json_def bo_envelope_json_def)

lemma sample_loads_envelope:
  "sample_loads bo_envelope_json =
     Inr (PyDict [(''content'', bo_content), (''meta'', PyDict []), (''isError'', PyBool False)])"
  by (simp add: sample_loads_def)

lemma sample_loads_comments: "sample_loads bo_comments_json = Inr (PyList [bo_comment])"
  using envelope_is_not_comments by (simp add: sample_loads_def)

lemma decode_failure_yields_no_comments:
  "loads t = Inl e \<Longrightarrow> decode_comments_text loads (Inr (PyStr t)) = []"
  by (simp add: decode_comments_text_def json_loads_def)

lemma outer_decode_failure_yields_no_comments:
  "loads s = Inl e \<Longrightarrow> parse_comments_output loads (PyStr s) = Inr []"
  by (simp add: parse_comments_output_def comments_of_string_def)

lemma string_response_is_unwrapped:
  assumes "loads s = Inr (PyDict [(''content'', PyList [PyDict [(''type'', PyStr ''text''), (''text'', PyStr t)]]),
                                  (''meta'', m), (''isError'', b)])"
    and "loads t = Inr (PyList comments)"
  shows "parse_comments_output loads (PyStr s) = Inr comments"
  using assms
  by (simp add: parse_comments_output_def comments_of_string_def decode_comments_text_def
        json_loads_def)

lemma object_response_with_text_attribute_is_unwrapped:
  assumes "loads t = Inr (PyList comments)"
  shows "parse_comments_output loads
           (PyObject cls
              [(''content'', PyList [PyObject item_cls [(''type'', PyStr ''text''), (''text'', PyStr t)]]),
               (''meta'', m), (''isError'', b)]) = Inr comments"
  using assms
  by (simp add: parse_comments_output_def comments_of_object_def decode_comments_text_def
        json_loads_def)

lemma structured_response_is_not_unwrapped:
  "parse_comments_output loads structured_response = Inr []"
  by (simp add: parse_comments_output_def comments_of_object_def structured_response_def
        bo_content_def)

text \<open>
  Claim C5, at the structured response. When the list-comments plan completes with an
  instance of its declared schema, whose first content item is a dictionary holding the
  comments as JSON text under the key \<^verbatim>\<open>text\<close>, the driver returns no comment at all,
  whatever \<^verbatim>\<open>json.loads\<close> does: it asks the dictionary for an attribute \<^verbatim>\<open>text\<close>.
  When the same envelope arrives as a string, the driver unwraps both layers and
  returns the one comment, whose body is \<^verbatim>\<open>ok\<close> and whose author name is \<^verbatim>\<open>Bo\<close>.
\<close>

theorem structured_listing_yields_no_comments:
  "monitor_linear_comments (scripted listing_structured) inp loads issue_id w =
     Some ([], logged (RunPlan (comments_plan issue_id)) w)
   \<and> monitor_linear_comments (scripted listing_as_string) inp sample_loads issue_id w =
     Some ([bo_comment], logged (RunPlan (comments_plan issue_id)) w)
   \<and> comment_body bo_comment = Inr (PyStr ''ok'')
   \<and> comment_author_name str_of bo_comment = Inr (PyStr ''Bo'')"
proof -
  have s1: "state (scripted listing_structured) (run_plan (scripted listing_structured) (comments_plan issue_id)) = COMPLETE"
    by (simp add: scripted_state scripted_run_plan listing_structured_def)
  have r1: "final_raw (scripted listing_structured)
      (run_plan (scripted listing_structured) (comments_plan issue_id)) = structured_response"
    by (simp add: scripted_def listing_structured_def)
  have a: "monitor_linear_comments (scripted listing_structured) inp loads issue_id w =
     Some ([], logged (RunPlan (comments_plan issue_id)) w)"
    using s1 r1
    by (simp add: monitor_linear_comments_def run_plan_and_resolve_direct
          structured_response_is_not_unwrapped)
  have s2: "state (scripted listing_as_string) (run_plan (scripted listing_as_string) (comments_plan issue_id)) = COMPLETE"
    by (simp add: scripted_state scripted_run_plan listing_as_string_def)
  have r2: "final_raw (scripted listing_as_string)
      (run_plan (scripted listing_as_string) (comments_plan issue_id)) = PyStr bo_envelope_json"
    by (simp add: scripted_def listing_as_string_def)
  have p2: "parse_comments_output sample_loads (PyStr bo_envelope_json) = Inr [bo_comment]"
    using sample_loads_envelope sample_loads_comments
    by (simp add: string_response_is_unwrapped bo_content_def)
  have b: "monitor_linear_comments (scripted listing_as_string) inp sample_loads issue_id w =
     Some ([bo_comment], logged (RunPlan (comments_plan issue_id)) w)"
    using s2 r2 p2 by (simp add: monitor_linear_comments_def run_plan_and_resolve_direct)
  have c: "comment_body bo_comment = Inr (PyStr ''ok'')"
    by (simp add: comment_body_def bo_comment_def)
  have d: "comment_author_name str_of bo_comment = Inr (PyStr ''Bo'')"
    by (simp add: comment_author_name_def bo_comment_def)
  from a b c d show ?thesis by simp
qed

section \<open>The research workflow\<close>























end
